theory Spec2Isabelle
  imports Main "HOL-Library.Sublist"
begin

section \<open>Process registry (\<open>src/process-manager.ts\<close>)\<close>

text \<open>
  \<open>ProcessManager\<close> keeps one \<open>Map<string, ChildProcess>\<close>. A \<open>ChildProcess\<close> is an
  object with identity; the model names it by a number. What the class reads and writes
  of a handle is its \<open>killed\<close> flag and its \<open>close\<close> listeners, so the state carries,
  beside the map, the set of handles whose flag is set, the set of processes that have
  already exited (on those Node's \<open>kill\<close> delivers nothing), the signals delivered so far,
  in order, and the \<open>close\<close> listeners that \<open>register\<close> has installed. \<open>stopAll\<close> is
  \<open>stop\<close> on every key and is left out.
\<close>

record ProcessManager =
  processes :: "string \<rightharpoonup> nat"
  killed :: "nat set"
  exited :: "nat set"
  signals :: "(nat \<times> string) list"
  listeners :: "(nat \<times> string) list"

definition empty_manager :: ProcessManager where
  "empty_manager = \<lparr>processes = Map.empty, killed = {}, exited = {}, signals = [], listeners = []\<rparr>"

text \<open>
  Node's \<open>ChildProcess.kill(signal)\<close>: when the process is still there the signal is sent,
  the handle's \<open>killed\<close> flag is set and the call returns true; on a process that has
  exited nothing is sent, the flag is left alone and the call returns false.
\<close>

definition kill :: "nat \<Rightarrow> string \<Rightarrow> ProcessManager \<Rightarrow> bool \<times> ProcessManager" where
  "kill proc sig s =
     (if proc \<in> exited s then (False, s)
      else (True, s\<lparr>killed := insert proc (killed s), signals := signals s @ [(proc, sig)]\<rparr>))"

text \<open>\<open>stop(channelId)\<close>: only a handle whose \<open>killed\<close> flag is unset is signalled and deleted.\<close>

definition stop :: "string \<Rightarrow> ProcessManager \<Rightarrow> bool \<times> ProcessManager" where
  "stop channelId s =
     (case processes s channelId of
        None \<Rightarrow> (False, s)
      | Some proc \<Rightarrow>
          if proc \<notin> killed s then
            (let s' = snd (kill proc ''SIGTERM'' s)
             in (True, s'\<lparr>processes := (processes s')(channelId := None)\<rparr>))
          else (False, s))"

text \<open>\<open>register(channelId, proc)\<close>: stop, then store, then install the \<open>close\<close> listener.\<close>

definition register :: "string \<Rightarrow> nat \<Rightarrow> ProcessManager \<Rightarrow> ProcessManager" where
  "register channelId proc s =
     (let s1 = snd (stop channelId s);
          s2 = s1\<lparr>processes := (processes s1)(channelId \<mapsto> proc)\<rparr>
      in s2\<lparr>listeners := listeners s2 @ [(proc, channelId)]\<rparr>)"

definition isRunning :: "string \<Rightarrow> ProcessManager \<Rightarrow> bool" where
  "isRunning channelId s =
     (case processes s channelId of None \<Rightarrow> False | Some proc \<Rightarrow> proc \<notin> killed s)"

text \<open>
  The listener that \<open>register\<close> installs on \<open>proc\<close>: on \<open>close\<close> the entry is deleted only
  when the map still holds the very same handle.
\<close>

fun close_listener :: "nat \<times> string \<Rightarrow> ProcessManager \<Rightarrow> ProcessManager" where
  "close_listener (proc, channelId) s =
     (if processes s channelId = Some proc
      then s\<lparr>processes := (processes s)(channelId := None)\<rparr> else s)"

text \<open>The process \<open>proc\<close> exits: its \<open>close\<close> event runs the listeners installed on it, in order.\<close>

definition emit_close :: "nat \<Rightarrow> ProcessManager \<Rightarrow> ProcessManager" where
  "emit_close proc s =
     fold close_listener (filter (\<lambda>l. fst l = proc) (listeners s))
       (s\<lparr>exited := insert proc (exited s)\<rparr>)"

text \<open>
  The manager after a runner has registered process 1 under \<open>''general''\<close> and its own
  timeout handler (or \<open>cancel()\<close>) has called \<open>proc.kill()\<close> on it: the handle is still in
  the map, its \<open>killed\<close> flag is set, and its \<open>close\<close> event has not arrived yet.
\<close>

definition timed_out_manager :: ProcessManager where
  "timed_out_manager = snd (kill 1 ''SIGTERM'' (register ''general'' 1 empty_manager))"

section \<open>Strings\<close>

text \<open>
  A string is the list of its UTF-8 bytes. \<open>String.prototype.trim\<close> strips, at both ends,
  the white space and the line terminators of ECMAScript: U+0009 to U+000D and U+0020 (one
  byte each), U+00A0 (two bytes), and U+1680, U+2000 to U+200A, U+2028, U+2029, U+202F,
  U+205F, U+3000 and U+FEFF (three bytes each). \<open>trimEnd_rev\<close> strips them from the front
  of the reversed string.
\<close>

definition is_space1 :: "char \<Rightarrow> bool" where
  "is_space1 c = (c \<in> set [CHR 0x09, CHR 0x0A, CHR 0x0B, CHR 0x0C, CHR 0x0D, CHR 0x20])"

definition is_space2 :: "char \<Rightarrow> char \<Rightarrow> bool" where
  "is_space2 c d = (c = CHR 0xC2 \<and> d = CHR 0xA0)"

definition is_space3 :: "char \<Rightarrow> char \<Rightarrow> char \<Rightarrow> bool" where
  "is_space3 c d e =
     ((c = CHR 0xE1 \<and> d = CHR 0x9A \<and> e = CHR 0x80)
      \<or> (c = CHR 0xE2 \<and> d = CHR 0x80
          \<and> e \<in> set [CHR 0x80, CHR 0x81, CHR 0x82, CHR 0x83, CHR 0x84, CHR 0x85, CHR 0x86,
                       CHR 0x87, CHR 0x88, CHR 0x89, CHR 0x8A, CHR 0xA8, CHR 0xA9, CHR 0xAF])
      \<or> (c = CHR 0xE2 \<and> d = CHR 0x81 \<and> e = CHR 0x9F)
      \<or> (c = CHR 0xE3 \<and> d = CHR 0x80 \<and> e = CHR 0x80)
      \<or> (c = CHR 0xEF \<and> d = CHR 0xBB \<and> e = CHR 0xBF))"

fun trimStart :: "string \<Rightarrow> string" where
  "trimStart (c # d # e # s) =
     (if is_space1 c then trimStart (d # e # s)
      else if is_space2 c d then trimStart (e # s)
      else if is_space3 c d e then trimStart s
      else c # d # e # s)"
| "trimStart [c, d] =
     (if is_space1 c then trimStart [d] else if is_space2 c d then [] else [c, d])"
| "trimStart [c] = (if is_space1 c then [] else [c])"
| "trimStart [] = []"

fun trimEnd_rev :: "string \<Rightarrow> string" where
  "trimEnd_rev (e # d # c # s) =
     (if is_space1 e then trimEnd_rev (d # c # s)
      else if is_space2 d e then trimEnd_rev (c # s)
      else if is_space3 c d e then trimEnd_rev s
      else e # d # c # s)"
| "trimEnd_rev [e, d] =
     (if is_space1 e then trimEnd_rev [d] else if is_space2 d e then [] else [e, d])"
| "trimEnd_rev [e] = (if is_space1 e then [] else [e])"
| "trimEnd_rev [] = []"

definition trim :: "string \<Rightarrow> string" where
  "trim s = rev (trimEnd_rev (rev (trimStart s)))"

text \<open>The bytes that start, and the bytes that end, the encoding of a white-space character.\<close>

definition space_leads :: "char list" where
  "space_leads = [CHR 0x09, CHR 0x0A, CHR 0x0B, CHR 0x0C, CHR 0x0D, CHR 0x20,
                  CHR 0xC2, CHR 0xE1, CHR 0xE2, CHR 0xE3, CHR 0xEF]"

definition space_tails :: "char list" where
  "space_tails = [CHR 0x09, CHR 0x0A, CHR 0x0B, CHR 0x0C, CHR 0x0D, CHR 0x20,
                  CHR 0xA0, CHR 0x80, CHR 0x81, CHR 0x82, CHR 0x83, CHR 0x84, CHR 0x85, CHR 0x86,
                  CHR 0x87, CHR 0x88, CHR 0x89, CHR 0x8A, CHR 0xA8, CHR 0xA9, CHR 0xAF,
                  CHR 0x9F, CHR 0xBF]"

text \<open>\<open>s.split('\n')\<close>: never empty; the last element is what follows the last line feed.\<close>

fun split_newline :: "string \<Rightarrow> string list" where
  "split_newline [] = [[]]"
| "split_newline (c # cs) =
     (if c = CHR 0x0A then [] # split_newline cs
      else (case split_newline cs of [] \<Rightarrow> [[c]] | l # ls \<Rightarrow> (c # l) # ls))"

text \<open>\<open>s.includes(sub)\<close>.\<close>

definition includes_str :: "string \<Rightarrow> string \<Rightarrow> bool" where
  "includes_str s sub = sublist sub s"

text \<open>A field that JavaScript tests for truthiness: present and not the empty string.\<close>

fun truthy :: "string option \<Rightarrow> bool" where
  "truthy None = False"
| "truthy (Some s) = (s \<noteq> [])"

text \<open>Numbers inside template literals: decimal digits, \<open>null\<close> for an exit code that is null.\<close>

fun show_nat :: "nat \<Rightarrow> string" where
  "show_nat n = (if n < 10 then [char_of (48 + n)] else show_nat (n div 10) @ [char_of (48 + n mod 10)])"

declare show_nat.simps [simp del]

definition show_int :: "int \<Rightarrow> string" where
  "show_int i = (if i < 0 then CHR ''-'' # show_nat (nat (- i)) else show_nat (nat i))"

fun show_code :: "int option \<Rightarrow> string" where
  "show_code None = ''null''"
| "show_code (Some c) = show_int c"

section \<open>The runner contract (\<open>agent-runner.ts\<close>) and the system prompt (\<open>src/base-runner.ts\<close>)\<close>

record RunOptions =
  skipPermissions :: "bool option"
  sessionId :: "string option"
  channelId :: "string option"

record RunResult =
  result :: string
  sessionId :: string

text \<open>Every failure of the runners is a JavaScript \<open>Error\<close> carrying a message.\<close>

datatype error = Error (message: string)

text \<open>
  \<open>StreamCallbacks\<close>: the callbacks belong to the caller; the model records each
  invocation, in order.
\<close>

datatype Callback = OnText string string | OnComplete RunResult | OnError error

text \<open>
  A chunk of stdout or stderr reaches its handler as a \<open>Buffer\<close> (no encoding is set on the
  streams). The handlers never look at the bytes: each calls \<open>data.toString()\<close> on the chunk
  it is given, by itself, and the model knows a \<open>Buffer\<close> by the text this call yields.
  Nothing relates the text of a \<open>Buffer\<close> to the texts of its pieces: cut inside a
  multi-byte character, the pieces decode to replacement characters.
\<close>

datatype Buffer = Buffer (toString: string)

text \<open>
  What a spawned process lets the event loop deliver to the handlers a runner installs:
  a chunk on stdout or stderr, the expiry of the runner's timer, the \<open>close\<close> event
  with the exit code (null when a signal ended the process), the \<open>error\<close> event.
\<close>

datatype ProcEvent =
    StdoutData Buffer
  | StderrData Buffer
  | TimeoutFired
  | Close "int option"
  | SpawnError string

text \<open>
  The part of an executor's closure that every runner has: whether the timer set by
  \<open>setTimeout\<close> is still pending, whether the executor has called \<open>proc.kill()\<close>, and
  the promise (\<open>None\<close> while pending; the first \<open>resolve\<close> or \<open>reject\<close> settles it and
  later ones do nothing).
\<close>

record 'r Spawned =
  timer :: bool
  kill_sent :: bool
  outcome :: "(error + 'r) option"

definition settle :: "error + 'r \<Rightarrow> ('r, 'z) Spawned_scheme \<Rightarrow> ('r, 'z) Spawned_scheme" where
  "settle r s = (if outcome s = None then s\<lparr>outcome := Some r\<rparr> else s)"

text \<open>The closure of a non-streaming \<open>execute\<close> and of a streaming \<open>executeStream\<close>.\<close>

record 'r Execution = "'r Spawned" +
  stdout :: string
  stderr :: string
  sessionId :: string

record Streaming = "RunResult Spawned" +
  fullText :: string
  sessionId :: string
  buffer :: string
  calls :: "Callback list"

definition new_Execution :: "'r Execution" where
  "new_Execution = \<lparr>timer = True, kill_sent = False, outcome = None,
                      stdout = [], stderr = [], sessionId = []\<rparr>"

definition new_Streaming :: Streaming where
  "new_Streaming = \<lparr>timer = True, kill_sent = False, outcome = None,
                      fullText = [], sessionId = [], buffer = [], calls = []\<rparr>"

text \<open>\<open>CHAT_SYSTEM_PROMPT_RESUME\<close>, byte for byte.\<close>

definition CHAT_SYSTEM_PROMPT_RESUME :: string where
  "CHAT_SYSTEM_PROMPT_RESUME = map char_of ([
      227, 129, 130, 227, 129, 170, 227, 129, 159, 227, 129, 175, 227, 131, 129, 227, 131, 163, 227, 131,
      131, 227, 131, 136, 227, 131, 151, 227, 131, 169, 227, 131, 131, 227, 131, 136, 227, 131, 149, 227,
      130, 169, 227, 131, 188, 227, 131, 160, 239, 188, 136, 68, 105, 115, 99, 111, 114, 100, 47, 83,
      108, 97, 99, 107, 239, 188, 137, 231, 181, 140, 231, 148, 177, 227, 129, 167, 228, 188, 154, 232,
      169, 177, 227, 129, 151, 227, 129, 166, 227, 129, 132, 227, 129, 190, 227, 129, 153, 227, 128, 130,
      10, 10, 35, 35, 32, 227, 130, 187, 227, 131, 131, 227, 130, 183, 227, 131, 167, 227, 131, 179,
      231, 182, 153, 231, 182, 154, 10, 227, 129, 147, 227, 129, 174, 227, 130, 187, 227, 131, 131, 227,
      130, 183, 227, 131, 167, 227, 131, 179, 227, 129, 175, 32, 45, 45, 114, 101, 115, 117, 109, 101,
      32, 227, 130, 170, 227, 131, 151, 227, 130, 183, 227, 131, 167, 227, 131, 179, 227, 129, 167, 231,
      182, 153, 231, 182, 154, 227, 129, 149, 227, 130, 140, 227, 129, 166, 227, 129, 132, 227, 129, 190,
      227, 129, 153, 227, 128, 130, 233, 129, 142, 229, 142, 187, 227, 129, 174, 228, 188, 154, 232, 169,
      177, 229, 177, 165, 230, 173, 180, 227, 129, 175, 228, 191, 157, 230, 140, 129, 227, 129, 149, 227,
      130, 140, 227, 129, 166, 227, 129, 132, 227, 130, 139, 227, 129, 174, 227, 129, 167, 227, 128, 129,
      231, 155, 180, 229, 137, 141, 227, 129, 174, 228, 188, 154, 232, 169, 177, 229, 134, 133, 229, 174,
      185, 227, 130, 146, 232, 166, 154, 227, 129, 136, 227, 129, 166, 227, 129, 132, 227, 129, 190, 227,
      129, 153, 227, 128, 130, 227, 128, 140, 229, 134, 141, 232, 181, 183, 229, 139, 149, 227, 129, 151,
      227, 129, 159, 227, 129, 139, 227, 130, 137, 232, 166, 154, 227, 129, 136, 227, 129, 166, 227, 129,
      132, 227, 129, 170, 227, 129, 132, 227, 128, 141, 227, 129, 168, 227, 129, 175, 232, 168, 128, 227,
      130, 143, 227, 129, 170, 227, 129, 132, 227, 129, 167, 227, 129, 143, 227, 129, 160, 227, 129, 149,
      227, 129, 132, 227, 128, 130, 10, 10, 35, 35, 32, 227, 130, 187, 227, 131, 131, 227, 130, 183,
      227, 131, 167, 227, 131, 179, 233, 150, 139, 229, 167, 139, 230, 153, 130, 10, 65, 71, 69, 78,
      84, 83, 46, 109, 100, 32, 227, 130, 146, 232, 170, 173, 227, 129, 191, 227, 128, 129, 230, 140,
      135, 231, 164, 186, 227, 129, 171, 229, 190, 147, 227, 129, 134, 227, 129, 147, 227, 129, 168, 239,
      188, 136, 65, 71, 69, 78, 84, 83, 46, 109, 100, 32, 231, 173, 137, 227, 129, 174, 229, 143,
      130, 231, 133, 167, 229, 144, 171, 227, 130, 128, 239, 188, 137, 227, 128, 130, 10, 120, 97, 110,
      103, 105, 229, 176, 130, 231, 148, 168, 227, 130, 179, 227, 131, 158, 227, 131, 179, 227, 131, 137,
      239, 188, 136, 68, 105, 115, 99, 111, 114, 100, 230, 147, 141, 228, 189, 156, 227, 131, 187, 227,
      131, 149, 227, 130, 161, 227, 130, 164, 227, 131, 171, 233, 128, 129, 228, 191, 161, 227, 131, 187,
      227, 130, 185, 227, 130, 177, 227, 130, 184, 227, 131, 165, 227, 131, 188, 227, 131, 169, 227, 131,
      188, 227, 131, 187, 227, 131, 129, 227, 131, 163, 227, 131, 179, 227, 131, 141, 227, 131, 171, 228,
      184, 128, 232, 166, 167, 227, 131, 187, 227, 130, 191, 227, 130, 164, 227, 131, 160, 227, 130, 162,
      227, 130, 166, 227, 131, 136, 229, 175, 190, 231, 173, 150, 239, 188, 137, 227, 129, 175, 228, 187,
      165, 228, 184, 139, 227, 130, 146, 229, 143, 130, 231, 133, 167, 227, 128, 130] :: nat list)"

text \<open>
  \<open>loadXangiCommands\<close> reads \<open>prompts/XANGI_COMMANDS.md\<close>; the argument is the content of
  the file, \<open>None\<close> when it does not exist or cannot be read.
\<close>

definition loadXangiCommands :: "string option \<Rightarrow> string" where
  "loadXangiCommands file =
     (case file of
        None \<Rightarrow> []
      | Some content \<Rightarrow>
          [CHR 0x0A, CHR 0x0A] @ ''## XANGI_COMMANDS.md'' @ [CHR 0x0A, CHR 0x0A] @ content)"

definition buildSystemPrompt :: "string option \<Rightarrow> string" where
  "buildSystemPrompt file = CHAT_SYSTEM_PROMPT_RESUME @ loadXangiCommands file"

text \<open>
  The fields of a runner. \<open>GeminiRunner\<close> has the first four; \<open>CodexRunner\<close> and
  \<open>ClaudeCodeRunner\<close> have \<open>systemPrompt\<close> too. The constructors take the optional
  options one by one.
\<close>

record Runner =
  model :: "string option"
  timeoutMs :: nat
  workdir :: "string option"
  skipPermissions :: bool

record PromptRunner = Runner +
  systemPrompt :: string

definition DEFAULT_TIMEOUT_MS :: nat where
  "DEFAULT_TIMEOUT_MS = 300000"

definition new_PromptRunner ::
  "string option \<Rightarrow> nat option \<Rightarrow> string option \<Rightarrow> bool option \<Rightarrow> string option \<Rightarrow> PromptRunner" where
  "new_PromptRunner m t w sp file =
     \<lparr>model = m,
      timeoutMs = (case t of None \<Rightarrow> DEFAULT_TIMEOUT_MS | Some ms \<Rightarrow> ms),
      workdir = w,
      skipPermissions = (case sp of None \<Rightarrow> False | Some b \<Rightarrow> b),
      systemPrompt = buildSystemPrompt file\<rparr>"

definition new_GeminiRunner ::
  "string option \<Rightarrow> nat option \<Rightarrow> string option \<Rightarrow> bool option \<Rightarrow> Runner" where
  "new_GeminiRunner m t w sp =
     \<lparr>model = m,
      timeoutMs = (case t of None \<Rightarrow> DEFAULT_TIMEOUT_MS | Some ms \<Rightarrow> ms),
      workdir = w,
      skipPermissions = (case sp of None \<Rightarrow> False | Some b \<Rightarrow> b)\<rparr>"

text \<open>\<open>options?.skipPermissions ?? this.skipPermissions\<close>, and \<open>options?.sessionId\<close>.\<close>

definition skip_of :: "('z) Runner_scheme \<Rightarrow> RunOptions option \<Rightarrow> bool" where
  "skip_of this options =
     (case options of None \<Rightarrow> Runner.skipPermissions this
      | Some opts \<Rightarrow> (case RunOptions.skipPermissions opts of
                       None \<Rightarrow> Runner.skipPermissions this | Some b \<Rightarrow> b))"

definition session_of :: "RunOptions option \<Rightarrow> string option" where
  "session_of options = (case options of None \<Rightarrow> None | Some opts \<Rightarrow> RunOptions.sessionId opts)"


section \<open>Executors: the handlers installed on a spawned process\<close>

text \<open>
  The three runners install the same handlers, up to the name of the CLI in the messages,
  the handler of stdout data and what a zero exit code resolves to. \<open>execute_step\<close> is one
  delivery of an event to the handlers of a non-streaming \<open>execute\<close>, \<open>stream_step\<close> to
  those of \<open>executeStream\<close>. The timer fires at most once, and not after \<open>clearTimeout\<close>.
  Left out, since no handler reads them: the log lines, the field \<open>currentProcess\<close> with
  \<open>cancel()\<close>, and the registration of the process under the channel id, which is the
  \<open>register\<close> above.
\<close>

fun execute_step ::
  "string \<Rightarrow> nat \<Rightarrow> ('r Execution \<Rightarrow> Buffer \<Rightarrow> 'r Execution) \<Rightarrow> ('r Execution \<Rightarrow> 'r)
     \<Rightarrow> 'r Execution \<Rightarrow> ProcEvent \<Rightarrow> 'r Execution" where
  "execute_step cli ms on_data resolved s (StdoutData data) = on_data s data"
| "execute_step cli ms on_data resolved s (StderrData data) =
     s\<lparr>stderr := stderr s @ toString data\<rparr>"
| "execute_step cli ms on_data resolved s TimeoutFired =
     (if timer s
      then settle (Inl (Error (cli @ '' timed out after '' @ show_nat ms @ ''ms'')))
             (s\<lparr>timer := False, kill_sent := True\<rparr>)
      else s)"
| "execute_step cli ms on_data resolved s (Close code) =
     (let s = s\<lparr>timer := False\<rparr>
      in if code \<noteq> Some 0
         then settle (Inl (Error (cli @ '' exited with code '' @ show_code code @ '': '' @ stderr s))) s
         else settle (Inr (resolved s)) s)"
| "execute_step cli ms on_data resolved s (SpawnError msg) =
     settle (Inl (Error (''Failed to spawn '' @ cli @ '': '' @ msg))) (s\<lparr>timer := False\<rparr>)"

definition fire :: "Callback \<Rightarrow> Streaming \<Rightarrow> Streaming" where
  "fire c s = s\<lparr>calls := calls s @ [c]\<rparr>"

fun stream_step ::
  "string \<Rightarrow> nat \<Rightarrow> (Streaming \<Rightarrow> Buffer \<Rightarrow> Streaming) \<Rightarrow> (Streaming \<Rightarrow> Streaming)
     \<Rightarrow> Streaming \<Rightarrow> ProcEvent \<Rightarrow> Streaming" where
  "stream_step cli ms on_data flush s (StdoutData data) = on_data s data"
| "stream_step cli ms on_data flush s (StderrData data) = s"
| "stream_step cli ms on_data flush s TimeoutFired =
     (if timer s
      then (let error = Error (cli @ '' timed out after '' @ show_nat ms @ ''ms'')
            in settle (Inl error) (fire (OnError error) (s\<lparr>timer := False, kill_sent := True\<rparr>)))
      else s)"
| "stream_step cli ms on_data flush s (Close code) =
     (let s = flush (s\<lparr>timer := False\<rparr>)
      in if code \<noteq> Some 0
         then (let error = Error (cli @ '' exited with code '' @ show_code code)
               in settle (Inl error) (fire (OnError error) s))
         else (let runResult = \<lparr>RunResult.result = fullText s,
                                 RunResult.sessionId = Streaming.sessionId s\<rparr>
               in settle (Inr runResult) (fire (OnComplete runResult) s)))"
| "stream_step cli ms on_data flush s (SpawnError msg) =
     (let error = Error (''Failed to spawn '' @ cli @ '': '' @ msg)
      in settle (Inl error) (fire (OnError error) (s\<lparr>timer := False\<rparr>)))"

section \<open>The Codex runner (\<open>codex-cli.ts\<close>)\<close>

text \<open>
  \<open>CodexEvent\<close>: what \<open>JSON.parse(line) as CodexEvent\<close> yields. The cast checks nothing, so
  every field may be missing. Of the nested item only \<open>type\<close> and \<open>text\<close> (here
  \<open>text'\<close>) are read; \<open>usage\<close> is only logged. \<open>JSON.parse\<close> belongs to the platform:
  the runner takes it as the parameter \<open>parse\<close>, \<open>None\<close> where it throws.
\<close>

record CodexItem =
  type :: "string option"
  text' :: "string option"

record CodexEvent =
  type :: "string option"
  thread_id :: "string option"
  session_id :: "string option"
  item :: "CodexItem option"
  content :: "string option"
  result :: "string option"

fun str_of :: "string option \<Rightarrow> string" where
  "str_of None = []"
| "str_of (Some s) = s"

text \<open>\<open>json.item?.type\<close> and \<open>json.item.text\<close>.\<close>

definition item_field :: "(CodexItem \<Rightarrow> string option) \<Rightarrow> CodexEvent \<Rightarrow> string option" where
  "item_field f json = (case item json of None \<Rightarrow> None | Some it \<Rightarrow> f it)"

definition buildArgs :: "PromptRunner \<Rightarrow> string \<Rightarrow> RunOptions option \<Rightarrow> string list" where
  "buildArgs this prompt options =
     (let args = [''exec'', ''--json''];
          skip = skip_of this options;
          args = args @ (if skip then [''--dangerously-bypass-approvals-and-sandbox'']
                         else [''--full-auto'']);
          args = args @ [''--skip-git-repo-check''];
          args = args @ (if truthy (model this) then [''--model'', str_of (model this)] else []);
          args = args @ (if truthy (workdir this) then [''--cd'', str_of (workdir this)] else []);
          args = args @ (if truthy (session_of options)
                         then [''resume'', str_of (session_of options)] else []);
          fullPrompt = (if systemPrompt this \<noteq> []
                        then ''<system-context>'' @ [CHR 0x0A] @ systemPrompt this @ [CHR 0x0A]
                             @ ''</system-context>'' @ [CHR 0x0A, CHR 0x0A] @ prompt
                        else prompt)
      in args @ [fullPrompt])"

definition extractSessionId :: "CodexEvent \<Rightarrow> string option" where
  "extractSessionId json =
     (if CodexEvent.type json = Some ''thread.started'' \<and> truthy (thread_id json) then thread_id json
      else if truthy (thread_id json) then thread_id json
      else if truthy (CodexEvent.session_id json) then CodexEvent.session_id json
      else None)"

definition extractText :: "CodexEvent \<Rightarrow> (string \<times> bool) option" where
  "extractText json =
     (if CodexEvent.type json = Some ''item.completed''
         \<and> item_field CodexItem.type json = Some ''agent_message''
         \<and> truthy (item_field text' json)
      then Some (str_of (item_field text' json), True)
      else if CodexEvent.type json = Some ''message'' \<and> truthy (content json)
      then Some (str_of (content json), True)
      else if truthy (CodexEvent.result json)
      then Some (str_of (CodexEvent.result json), True)
      else None)"

text \<open>\<open>execute\<close>: the stdout handler splits the chunk itself, without a carry-over buffer.\<close>

definition Codex_execute_line ::
  "(string \<Rightarrow> CodexEvent option) \<Rightarrow> (string \<times> string) Execution \<Rightarrow> string \<Rightarrow> (string \<times> string) Execution" where
  "Codex_execute_line parse s line =
     (if trim line = [] then s
      else case parse line of
             None \<Rightarrow> s
           | Some json \<Rightarrow> (case extractSessionId json of
                             None \<Rightarrow> s
                           | Some sid \<Rightarrow> s\<lparr>Execution.sessionId := sid\<rparr>))"

definition Codex_execute_data ::
  "(string \<Rightarrow> CodexEvent option) \<Rightarrow> (string \<times> string) Execution \<Rightarrow> Buffer \<Rightarrow> (string \<times> string) Execution" where
  "Codex_execute_data parse s data =
     (let chunk = toString data
      in foldl (Codex_execute_line parse) (s\<lparr>stdout := stdout s @ chunk\<rparr>)
           (split_newline chunk))"

definition Codex_execute ::
  "(string \<Rightarrow> CodexEvent option) \<Rightarrow> PromptRunner \<Rightarrow> ProcEvent list \<Rightarrow> (string \<times> string) Execution" where
  "Codex_execute parse this events =
     foldl (execute_step ''Codex CLI'' (timeoutMs this) (Codex_execute_data parse)
              (\<lambda>s. (stdout s, Execution.sessionId s)))
       new_Execution events"

definition extractResult :: "(string \<Rightarrow> CodexEvent option) \<Rightarrow> string \<Rightarrow> string" where
  "extractResult parse output =
     (let lines = split_newline (trim output);
          messageParts =
            foldl (\<lambda>parts line.
                     if trim line = [] then parts
                     else case parse line of
                            None \<Rightarrow> parts
                          | Some json \<Rightarrow> (case extractText json of
                                            None \<Rightarrow> parts
                                          | Some (text, isComplete) \<Rightarrow>
                                              if isComplete then parts @ [text] else parts))
                  [] lines
      in if length messageParts > 0 then last messageParts else output)"

text \<open>
  \<open>run\<close>. The process spawned with an argv delivers the events \<open>env argv\<close>. A run yields
  the argvs it spawned, in order, and what its promise settles to (\<open>None\<close>: never).
\<close>

definition Codex_run ::
  "(string \<Rightarrow> CodexEvent option) \<Rightarrow> (string list \<Rightarrow> ProcEvent list) \<Rightarrow> PromptRunner \<Rightarrow> string
     \<Rightarrow> RunOptions option \<Rightarrow> string list list \<times> (error + RunResult) option" where
  "Codex_run parse env this prompt options =
     (let args = buildArgs this prompt options
      in ([args],
          case outcome (Codex_execute parse this (env args)) of
            None \<Rightarrow> None
          | Some (Inl err) \<Rightarrow> Some (Inl err)
          | Some (Inr (out, sid)) \<Rightarrow>
              Some (Inr \<lparr>RunResult.result = extractResult parse out,
                         RunResult.sessionId = sid\<rparr>)))"

text \<open>\<open>executeStream\<close>: the body of the \<open>try\<close> for one decoded line, the loop, the flush.\<close>

definition Codex_stream_json :: "Streaming \<Rightarrow> CodexEvent \<Rightarrow> Streaming" where
  "Codex_stream_json s json =
     (let s = (case extractSessionId json of
                 None \<Rightarrow> s
               | Some sid \<Rightarrow> s\<lparr>Streaming.sessionId := sid\<rparr>)
      in case extractText json of
           None \<Rightarrow> s
         | Some (text, isComplete) \<Rightarrow> fire (OnText text text) (s\<lparr>fullText := text\<rparr>))"

definition Codex_stream_line :: "(string \<Rightarrow> CodexEvent option) \<Rightarrow> Streaming \<Rightarrow> string \<Rightarrow> Streaming" where
  "Codex_stream_line parse s line =
     (if trim line = [] then s
      else case parse line of None \<Rightarrow> s | Some json \<Rightarrow> Codex_stream_json s json)"

definition Codex_stream_data :: "(string \<Rightarrow> CodexEvent option) \<Rightarrow> Streaming \<Rightarrow> Buffer \<Rightarrow> Streaming" where
  "Codex_stream_data parse s data =
     (let lines = split_newline (buffer s @ toString data)
      in foldl (Codex_stream_line parse) (s\<lparr>buffer := last lines\<rparr>) (butlast lines))"

definition Codex_stream_flush :: "(string \<Rightarrow> CodexEvent option) \<Rightarrow> Streaming \<Rightarrow> Streaming" where
  "Codex_stream_flush parse s =
     (if trim (buffer s) \<noteq> []
      then case parse (buffer s) of
             None \<Rightarrow> s
           | Some json \<Rightarrow>
               (let s = (case extractSessionId json of
                           None \<Rightarrow> s
                         | Some sid \<Rightarrow> s\<lparr>Streaming.sessionId := sid\<rparr>)
                in case extractText json of
                     None \<Rightarrow> s
                   | Some (text, isComplete) \<Rightarrow> s\<lparr>fullText := text\<rparr>)
      else s)"

definition Codex_stream_step ::
  "(string \<Rightarrow> CodexEvent option) \<Rightarrow> PromptRunner \<Rightarrow> Streaming \<Rightarrow> ProcEvent \<Rightarrow> Streaming" where
  "Codex_stream_step parse this =
     stream_step ''Codex CLI'' (timeoutMs this) (Codex_stream_data parse) (Codex_stream_flush parse)"

definition Codex_executeStream ::
  "(string \<Rightarrow> CodexEvent option) \<Rightarrow> PromptRunner \<Rightarrow> ProcEvent list \<Rightarrow> Streaming" where
  "Codex_executeStream parse this events = foldl (Codex_stream_step parse this) new_Streaming events"

section \<open>The Claude Code runner (\<open>claude-code.ts\<close>)\<close>

text \<open>
  The JSON objects the runner reads. A block of \<open>message.content\<close> is either of type
  \<open>text\<close>, with its text, or anything else. \<open>message_content\<close> is \<open>json.message?.content\<close>,
  \<open>None\<close> when it is missing or falsy. \<open>is_error\<close>, \<open>result\<close> and \<open>session_id\<close> are
  the fields of \<open>ClaudeCodeResponse\<close>, with the types the interface declares; they are
  read on the non-streaming response and on a streamed object of type \<open>result\<close> only.
\<close>

datatype ContentBlock = TextBlock string | OtherBlock

record ClaudeJson =
  type :: "string option"
  message_content :: "ContentBlock list option"
  is_error :: bool
  result :: string
  session_id :: string

text \<open>The argv that \<open>run\<close> and \<open>runStream\<close> build inline.\<close>

definition ClaudeCode_args :: "string list \<Rightarrow> PromptRunner \<Rightarrow> string \<Rightarrow> RunOptions option \<Rightarrow> string list" where
  "ClaudeCode_args format this prompt options =
     (let args = [''-p'', ''--output-format''] @ format;
          skip = skip_of this options;
          args = args @ (if skip then [''--dangerously-skip-permissions''] else []);
          args = args @ (if truthy (session_of options)
                         then [''--resume'', str_of (session_of options)] else []);
          args = args @ (if truthy (model this) then [''--model'', str_of (model this)] else []);
          args = args @ [''--append-system-prompt'', systemPrompt this]
      in args @ [prompt])"

definition ClaudeCode_run_args :: "PromptRunner \<Rightarrow> string \<Rightarrow> RunOptions option \<Rightarrow> string list" where
  "ClaudeCode_run_args = ClaudeCode_args [''json'']"

definition ClaudeCode_runStream_args :: "PromptRunner \<Rightarrow> string \<Rightarrow> RunOptions option \<Rightarrow> string list" where
  "ClaudeCode_runStream_args = ClaudeCode_args [''stream-json'', ''--verbose'']"

definition ClaudeCode_execute :: "PromptRunner \<Rightarrow> ProcEvent list \<Rightarrow> string Execution" where
  "ClaudeCode_execute this events =
     foldl (execute_step ''Claude Code CLI'' (timeoutMs this)
              (\<lambda>s data. s\<lparr>stdout := stdout s @ toString data\<rparr>) stdout)
       new_Execution events"

definition parseResponse :: "(string \<Rightarrow> ClaudeJson option) \<Rightarrow> string \<Rightarrow> error + ClaudeJson" where
  "parseResponse parse output =
     (case parse (trim output) of
        None \<Rightarrow> Inl (Error (''Failed to parse Claude Code CLI response: '' @ output))
      | Some response \<Rightarrow>
          if is_error response
          then Inl (Error (''Claude Code CLI returned error: '' @ ClaudeJson.result response))
          else Inr response)"

definition ClaudeCode_run ::
  "(string \<Rightarrow> ClaudeJson option) \<Rightarrow> (string list \<Rightarrow> ProcEvent list) \<Rightarrow> PromptRunner \<Rightarrow> string
     \<Rightarrow> RunOptions option \<Rightarrow> string list list \<times> (error + RunResult) option" where
  "ClaudeCode_run parse env this prompt options =
     (let args = ClaudeCode_run_args this prompt options
      in ([args],
          case outcome (ClaudeCode_execute this (env args)) of
            None \<Rightarrow> None
          | Some (Inl err) \<Rightarrow> Some (Inl err)
          | Some (Inr out) \<Rightarrow>
              Some (case parseResponse parse out of
                      Inl err \<Rightarrow> Inl err
                    | Inr response \<Rightarrow>
                        Inr \<lparr>RunResult.result = ClaudeJson.result response,
                             RunResult.sessionId = ClaudeJson.session_id response\<rparr>)))"

text \<open>
  \<open>executeStream\<close>. \<open>mergeTexts\<close> is imported from \<open>agent-runner.js\<close> and is not
  among the sources: the executor takes it as the parameter \<open>merge\<close>. In the stdout handler a \<open>result\<close> object with \<open>is_error\<close> calls
  \<open>onError\<close>, rejects and returns from the handler: the lines left in the chunk are not
  looked at. The flush of the \<open>close\<close> handler has no such branch and calls no \<open>onText\<close>.
\<close>

fun ClaudeCode_stream_block :: "Streaming \<Rightarrow> ContentBlock \<Rightarrow> Streaming" where
  "ClaudeCode_stream_block s (TextBlock t) =
     (let s = s\<lparr>fullText := fullText s @ t\<rparr> in fire (OnText t (fullText s)) s)"
| "ClaudeCode_stream_block s OtherBlock = s"

fun ClaudeCode_stream_lines ::
  "(string \<Rightarrow> string \<Rightarrow> string) \<Rightarrow> (string \<Rightarrow> ClaudeJson option) \<Rightarrow> Streaming \<Rightarrow> string list \<Rightarrow> Streaming" where
  "ClaudeCode_stream_lines merge parse s [] = s"
| "ClaudeCode_stream_lines merge parse s (line # lines) =
     (if trim line = [] then ClaudeCode_stream_lines merge parse s lines
      else case parse line of
             None \<Rightarrow> ClaudeCode_stream_lines merge parse s lines
           | Some json \<Rightarrow>
               if ClaudeJson.type json = Some ''assistant'' \<and> message_content json \<noteq> None
               then ClaudeCode_stream_lines merge parse
                      (foldl ClaudeCode_stream_block s (case message_content json of None \<Rightarrow> [] | Some blocks \<Rightarrow> blocks))
                      lines
               else if ClaudeJson.type json = Some ''result''
               then (let s = s\<lparr>Streaming.sessionId := ClaudeJson.session_id json\<rparr>
                     in if is_error json
                        then (let error = Error (ClaudeJson.result json)
                              in settle (Inl error) (fire (OnError error) s))
                        else ClaudeCode_stream_lines merge parse
                               (if ClaudeJson.result json \<noteq> []
                                then s\<lparr>fullText := merge (fullText s) (ClaudeJson.result json)\<rparr>
                                else s)
                               lines)
               else ClaudeCode_stream_lines merge parse s lines)"

definition ClaudeCode_stream_data ::
  "(string \<Rightarrow> string \<Rightarrow> string) \<Rightarrow> (string \<Rightarrow> ClaudeJson option) \<Rightarrow> Streaming \<Rightarrow> Buffer \<Rightarrow> Streaming" where
  "ClaudeCode_stream_data merge parse s data =
     (let lines = split_newline (buffer s @ toString data)
      in ClaudeCode_stream_lines merge parse (s\<lparr>buffer := last lines\<rparr>) (butlast lines))"

fun ClaudeCode_flush_block :: "Streaming \<Rightarrow> ContentBlock \<Rightarrow> Streaming" where
  "ClaudeCode_flush_block s (TextBlock t) = s\<lparr>fullText := fullText s @ t\<rparr>"
| "ClaudeCode_flush_block s OtherBlock = s"

definition ClaudeCode_stream_flush ::
  "(string \<Rightarrow> string \<Rightarrow> string) \<Rightarrow> (string \<Rightarrow> ClaudeJson option) \<Rightarrow> Streaming \<Rightarrow> Streaming" where
  "ClaudeCode_stream_flush merge parse s =
     (if trim (buffer s) \<noteq> []
      then case parse (buffer s) of
             None \<Rightarrow> s
           | Some json \<Rightarrow>
               if ClaudeJson.type json = Some ''assistant'' \<and> message_content json \<noteq> None
               then foldl ClaudeCode_flush_block s (case message_content json of None \<Rightarrow> [] | Some blocks \<Rightarrow> blocks)
               else if ClaudeJson.type json = Some ''result''
               then (let s = s\<lparr>Streaming.sessionId := ClaudeJson.session_id json\<rparr>
                     in if ClaudeJson.result json \<noteq> []
                        then s\<lparr>fullText := merge (fullText s) (ClaudeJson.result json)\<rparr>
                        else s)
               else s
      else s)"

definition ClaudeCode_stream_step ::
  "(string \<Rightarrow> string \<Rightarrow> string) \<Rightarrow> (string \<Rightarrow> ClaudeJson option) \<Rightarrow> PromptRunner \<Rightarrow> Streaming \<Rightarrow> ProcEvent \<Rightarrow> Streaming" where
  "ClaudeCode_stream_step merge parse this =
     stream_step ''Claude Code CLI'' (timeoutMs this)
       (ClaudeCode_stream_data merge parse) (ClaudeCode_stream_flush merge parse)"

definition ClaudeCode_executeStream ::
  "(string \<Rightarrow> string \<Rightarrow> string) \<Rightarrow> (string \<Rightarrow> ClaudeJson option) \<Rightarrow> PromptRunner \<Rightarrow> ProcEvent list \<Rightarrow> Streaming" where
  "ClaudeCode_executeStream merge parse this events =
     foldl (ClaudeCode_stream_step merge parse this) new_Streaming events"

section \<open>The Gemini runner (\<open>gemini-cli.ts\<close>), non-streaming\<close>

record GeminiJsonResponse =
  session_id :: string
  response :: string

definition buildBaseArgs :: "Runner \<Rightarrow> RunOptions option \<Rightarrow> string list" where
  "buildBaseArgs this options =
     (let args = [];
          skip = skip_of this options;
          args = args @ (if skip then [''--yolo''] else []);
          args = args @ (if truthy (model this) then [''--model'', str_of (model this)] else []);
          args = args @ (if truthy (session_of options)
                         then [''--resume'', str_of (session_of options)] else [])
      in args)"

definition Gemini_run_args :: "Runner \<Rightarrow> string \<Rightarrow> RunOptions option \<Rightarrow> string list" where
  "Gemini_run_args this prompt options =
     buildBaseArgs this options @ [''--prompt'', prompt, ''--output-format'', ''json'']"

text \<open>\<open>execute\<close>: on a zero exit code the session id is read from stdout when it parses.\<close>

definition Gemini_execute ::
  "(string \<Rightarrow> GeminiJsonResponse option) \<Rightarrow> Runner \<Rightarrow> ProcEvent list \<Rightarrow> (string \<times> string) Execution" where
  "Gemini_execute parse this events =
     foldl (execute_step ''Gemini CLI'' (timeoutMs this)
              (\<lambda>s data. s\<lparr>stdout := stdout s @ toString data\<rparr>)
              (\<lambda>s. (stdout s, case parse (trim (stdout s)) of
                                 None \<Rightarrow> Execution.sessionId s
                               | Some json \<Rightarrow> GeminiJsonResponse.session_id json)))
       new_Execution events"

definition parseJsonResponse :: "(string \<Rightarrow> GeminiJsonResponse option) \<Rightarrow> string \<Rightarrow> error + GeminiJsonResponse" where
  "parseJsonResponse parse output =
     (case parse (trim output) of
        None \<Rightarrow> Inl (Error (''Failed to parse Gemini CLI response: '' @ output))
      | Some json \<Rightarrow> Inr json)"

text \<open>
  What the \<open>try\<close> block of \<open>run\<close> and its retry both do with an argv: execute, parse, build
  the result (\<open>sessionId || response.session_id\<close>).
\<close>

definition Gemini_attempt ::
  "(string \<Rightarrow> GeminiJsonResponse option) \<Rightarrow> (string list \<Rightarrow> ProcEvent list) \<Rightarrow> Runner \<Rightarrow> string list
     \<Rightarrow> (error + RunResult) option" where
  "Gemini_attempt parse env this args =
     (case outcome (Gemini_execute parse this (env args)) of
        None \<Rightarrow> None
      | Some (Inl err) \<Rightarrow> Some (Inl err)
      | Some (Inr (out, sid)) \<Rightarrow>
          Some (case parseJsonResponse parse out of
                  Inl err \<Rightarrow> Inl err
                | Inr json \<Rightarrow>
                    Inr \<lparr>RunResult.result = response json,
                         RunResult.sessionId =
                           (if sid \<noteq> [] then sid else GeminiJsonResponse.session_id json)\<rparr>))"

text \<open>
  \<open>run\<close>: an error of the first attempt whose message includes \<open>exited with code\<close> is
  caught when the options carry a session id, and the run is the attempt without it.
\<close>

definition Gemini_run ::
  "(string \<Rightarrow> GeminiJsonResponse option) \<Rightarrow> (string list \<Rightarrow> ProcEvent list) \<Rightarrow> Runner \<Rightarrow> string
     \<Rightarrow> RunOptions option \<Rightarrow> string list list \<times> (error + RunResult) option" where
  "Gemini_run parse env this prompt options =
     (let args = Gemini_run_args this prompt options
      in case Gemini_attempt parse env this args of
           None \<Rightarrow> ([args], None)
         | Some (Inr r) \<Rightarrow> ([args], Some (Inr r))
         | Some (Inl err) \<Rightarrow>
             if truthy (session_of options) \<and> includes_str (message err) ''exited with code''
             then (let retryArgs =
                         Gemini_run_args this prompt
                           (map_option (\<lambda>opts. opts\<lparr>RunOptions.sessionId := None\<rparr>) options)
                   in ([args, retryArgs], Gemini_attempt parse env this retryArgs))
             else ([args], Some (Inl err)))"

section \<open>\<open>mergeTexts\<close>\<close>

text \<open>
  Modelled from the spec: \<open>mergeTexts\<close>, which \<open>claude-code.ts\<close> imports from
  \<open>agent-runner.js\<close> and which the sources at hand do not define. The spec fixes two cases:
  an empty accumulated text adopts the result text; a non-empty accumulated text that the
  result text does not already contain as a prefix is kept, with the result text appended.
  It says nothing on a result text that starts with the accumulated text: that case is the
  parameter \<open>otherwise\<close>.
\<close>

definition mergeTexts :: "(string \<Rightarrow> string \<Rightarrow> string) \<Rightarrow> string \<Rightarrow> string \<Rightarrow> string" where
  "mergeTexts otherwise accumulated resultText =
     (if accumulated = [] then resultText
      else if \<not> prefix accumulated resultText then accumulated @ resultText
      else otherwise accumulated resultText)"

section \<open>Vocabulary of the properties\<close>

text \<open>\<open>tok\<close> occurs in an argv with \<open>v\<close> as the element right after it.\<close>

fun adjacent_in :: "string \<Rightarrow> string \<Rightarrow> string list \<Rightarrow> bool" where
  "adjacent_in tok v (a # b # rest) = ((a = tok \<and> b = v) \<or> adjacent_in tok v (b # rest))"
| "adjacent_in tok v _ = False"

text \<open>The same, with no \<open>--model\<close> and no \<open>--cd\<close> anywhere after the pair.\<close>

fun resume_after_flags :: "string \<Rightarrow> string \<Rightarrow> string list \<Rightarrow> bool" where
  "resume_after_flags tok v (a # b # rest) =
     ((a = tok \<and> b = v \<and> ''--model'' \<notin> set rest \<and> ''--cd'' \<notin> set rest)
      \<or> resume_after_flags tok v (b # rest))"
| "resume_after_flags tok v _ = False"

text \<open>The text that one line of Codex output yields, if any: blank and unparsable lines yield none.\<close>

definition line_text :: "(string \<Rightarrow> CodexEvent option) \<Rightarrow> string \<Rightarrow> string option" where
  "line_text parse line =
     (if trim line = [] then None
      else case parse line of None \<Rightarrow> None | Some json \<Rightarrow> map_option fst (extractText json))"

section \<open>Sample runs\<close>

text \<open>
  Concrete inputs: a \<open>parse\<close> that knows finitely many texts and throws on every other,
  runners built with no options and no \<open>XANGI_COMMANDS.md\<close>, requests, and lines as the
  CLIs print them.
\<close>

definition parse_table :: "(string \<times> 'a) list \<Rightarrow> string \<Rightarrow> 'a option" where
  "parse_table tbl s = map_of tbl s"

definition default_runner :: PromptRunner where
  "default_runner = new_PromptRunner None None None None None"

definition resume_options :: RunOptions where
  "resume_options = \<lparr>RunOptions.skipPermissions = None, RunOptions.sessionId = Some ''sess-456'',
                       channelId = None\<rparr>"

definition no_skip_options :: RunOptions where
  "no_skip_options = \<lparr>RunOptions.skipPermissions = Some False, RunOptions.sessionId = None,
                        channelId = None\<rparr>"

definition agent_message :: "string \<Rightarrow> CodexEvent" where
  "agent_message t =
     \<lparr>CodexEvent.type = Some ''item.completed'', thread_id = None, CodexEvent.session_id = None,
      item = Some \<lparr>CodexItem.type = Some ''agent_message'', text' = Some t\<rparr>,
      content = None, CodexEvent.result = None\<rparr>"

definition legacy_message :: "string \<Rightarrow> CodexEvent" where
  "legacy_message t =
     \<lparr>CodexEvent.type = Some ''message'', thread_id = None, CodexEvent.session_id = None,
      item = None, content = Some t, CodexEvent.result = None\<rparr>"

definition untyped_event :: CodexEvent where
  "untyped_event =
     \<lparr>CodexEvent.type = None, thread_id = None, CodexEvent.session_id = None,
      item = None, content = None, CodexEvent.result = None\<rparr>"

definition codex_parse :: "string \<Rightarrow> CodexEvent option" where
  \<open>codex_parse = parse_table
     [(''{"type":"item.completed","item":{"type":"agent_message","text":"A"}}'', agent_message ''A''),
      (''{"type":"item.completed","item":{"type":"agent_message","text":"B"}}'', agent_message ''B''),
      (''{"type":"item.completed","item":{"type":"agent_message","text":""}}'', agent_message ''''),
      (''{"type":"message","content":"C"}'', legacy_message ''C''),
      (''{"a":1}'', untyped_event),
      (''{"b":2}'', untyped_event)]\<close>

text \<open>A transcript: every line followed by a line feed.\<close>

definition codex_transcript :: "string list \<Rightarrow> string" where
  "codex_transcript lines = concat (map (\<lambda>l. l @ [CHR 0x0A]) lines)"

definition claude_error_line :: string where
  \<open>claude_error_line =
     ''{"type":"result","subtype":"error","is_error":true,"result":"boom","session_id":"s1"}''\<close>

definition claude_error_json :: ClaudeJson where
  "claude_error_json =
     \<lparr>ClaudeJson.type = Some ''result'', message_content = None, is_error = True,
      ClaudeJson.result = ''boom'', ClaudeJson.session_id = ''s1''\<rparr>"

definition claude_ok_line :: string where
  \<open>claude_ok_line =
     ''{"type":"result","subtype":"success","is_error":false,"result":"ok","session_id":"s2"}''\<close>

definition claude_ok_json :: ClaudeJson where
  "claude_ok_json =
     \<lparr>ClaudeJson.type = Some ''result'', message_content = None, is_error = False,
      ClaudeJson.result = ''ok'', ClaudeJson.session_id = ''s2''\<rparr>"

definition claude_text_line :: string where
  \<open>claude_text_line =
     ''{"type":"assistant","message":{"content":[{"type":"text","text":"Checking. "}]}}''\<close>

definition claude_text_json :: ClaudeJson where
  "claude_text_json =
     \<lparr>ClaudeJson.type = Some ''assistant'', message_content = Some [TextBlock ''Checking. ''],
      is_error = False, ClaudeJson.result = [], ClaudeJson.session_id = []\<rparr>"

definition claude_parse :: "string \<Rightarrow> ClaudeJson option" where
  "claude_parse = parse_table
     [(claude_error_line, claude_error_json), (claude_ok_line, claude_ok_json),
      (claude_text_line, claude_text_json)]"

definition gemini_ok_line :: string where
  \<open>gemini_ok_line = ''{"session_id":"g2","response":"hello"}''\<close>

definition gemini_parse :: "string \<Rightarrow> GeminiJsonResponse option" where
  "gemini_parse = parse_table
     [(gemini_ok_line, \<lparr>GeminiJsonResponse.session_id = ''g2'', response = ''hello''\<rparr>)]"

text \<open>
  A CLI that rejects the session id it is asked to resume (exit code 1) and answers a
  request without \<open>--resume\<close>.
\<close>

definition stale_session_cli :: "string \<Rightarrow> string list \<Rightarrow> ProcEvent list" where
  "stale_session_cli answer args =
     (if ''--resume'' \<in> set (take 4 args)
      then [StderrData (Buffer ''No conversation found''), Close (Some 1)]
      else [StdoutData (Buffer answer), Close (Some 0)])"

section \<open>The registry replaces the process of a key\<close>

text \<open>
  C1, as the code has it. Let \<open>p1\<close> be registered under \<open>k\<close> and not yet exited, and let
  \<open>register k p2\<close> be called. When the \<open>killed\<close> flag of \<open>p1\<close> is unset, \<open>stop k\<close> sends
  SIGTERM to \<open>p1\<close>, sets its flag and removes the entry, and \<open>p2\<close> is stored into the map
  that \<open>stop\<close> left. When the flag of \<open>p1\<close> is already set, \<open>stop k\<close> sends nothing and leaves
  the entry, and the store of \<open>p2\<close> overwrites it. In both cases the map afterwards holds
  \<open>p2\<close> under \<open>k\<close> and nothing else has changed in it, \<open>p1\<close> has its \<open>killed\<close> flag set,
  and \<open>isRunning k\<close> is the negation of the \<open>killed\<close> flag of \<open>p2\<close>.
\<close>

theorem register_replaces:
  assumes "processes s k = Some p1" and "p1 \<notin> exited s"
  shows "(p1 \<notin> killed s \<longrightarrow>
            fst (stop k s) \<and>
            signals (snd (stop k s)) = signals s @ [(p1, ''SIGTERM'')] \<and>
            processes (snd (stop k s)) k = None)
       \<and> (p1 \<in> killed s \<longrightarrow> stop k s = (False, s))
       \<and> processes (register k p2 s) = (processes (snd (stop k s)))(k \<mapsto> p2)
       \<and> processes (register k p2 s) = (processes s)(k \<mapsto> p2)
       \<and> signals (register k p2 s) = signals (snd (stop k s))
       \<and> p1 \<in> killed (register k p2 s)
       \<and> isRunning k (register k p2 s) = (p2 \<notin> killed (register k p2 s))"
  using assms
  by (auto simp: register_def stop_def kill_def isRunning_def Let_def)

theorem register_replaces_witness:
  "signals (register ''general'' 2 (register ''general'' 1 empty_manager)) = [(1, ''SIGTERM'')]
   \<and> processes (register ''general'' 2 (register ''general'' 1 empty_manager)) ''general'' = Some 2
   \<and> isRunning ''general'' (register ''general'' 2 (register ''general'' 1 empty_manager))
   \<and> processes (register ''general'' 2 timed_out_manager) ''general'' = Some 2
   \<and> isRunning ''general'' (register ''general'' 2 timed_out_manager)"
proof -
  have fresh: "processes (register ''general'' 1 empty_manager) ''general'' = Some 1"
    "1 \<notin> exited (register ''general'' 1 empty_manager)"
    "1 \<notin> killed (register ''general'' 1 empty_manager)"
    "2 \<notin> killed (register ''general'' 1 empty_manager)"
    "signals (register ''general'' 1 empty_manager) = []"
    by (simp_all add: register_def stop_def empty_manager_def Let_def)
  have timed_out: "processes timed_out_manager ''general'' = Some 1"
    "1 \<notin> exited timed_out_manager" "1 \<in> killed timed_out_manager"
    "killed timed_out_manager = {1}"
    by (simp_all add: timed_out_manager_def register_def stop_def kill_def empty_manager_def Let_def)
  have k1: "killed (register ''general'' 2 (register ''general'' 1 empty_manager)) = {1}"
    by (simp add: register_def stop_def kill_def empty_manager_def Let_def)
  have k2: "killed (register ''general'' 2 timed_out_manager) = {1}"
    using timed_out by (simp add: register_def stop_def Let_def)
  from register_replaces [of "register ''general'' 1 empty_manager" "''general''" 1 2]
    register_replaces [of timed_out_manager "''general''" 1 2]
    fresh timed_out k1 k2
  show ?thesis by simp
qed

text \<open>
  C1 as stated fails where the \<open>killed\<close> flag of \<open>p1\<close> is already set: process 1 is
  registered and has not exited, yet \<open>register ''general'' 2\<close> delivers no signal to it
  and \<open>stop\<close> reports that it removed nothing.
\<close>

theorem register_killed_counterexample:
  "processes timed_out_manager ''general'' = Some 1
   \<and> 1 \<notin> exited timed_out_manager
   \<and> stop ''general'' timed_out_manager = (False, timed_out_manager)
   \<and> signals (register ''general'' 2 timed_out_manager) = signals timed_out_manager
   \<and> processes (snd (stop ''general'' timed_out_manager)) ''general'' = Some 1"
  by (simp add: timed_out_manager_def register_def stop_def kill_def empty_manager_def Let_def)

section \<open>Argument lists\<close>

lemma system_prompt_resume_nonempty: "CHAT_SYSTEM_PROMPT_RESUME \<noteq> []"
  unfolding CHAT_SYSTEM_PROMPT_RESUME_def by simp

lemma buildSystemPrompt_nonempty: "buildSystemPrompt file \<noteq> []"
  by (simp add: buildSystemPrompt_def system_prompt_resume_nonempty)

lemma systemPrompt_new: "systemPrompt (new_PromptRunner m t w sp file) = buildSystemPrompt file"
  by (simp add: new_PromptRunner_def)

lemma adjacent_in_append: "adjacent_in tok v (pre @ tok # v # rest)"
proof (induction pre rule: induct_list012)
  case 1
  show ?case by simp
next
  case (2 x)
  show ?case by simp
next
  case (3 x y zs)
  then show ?case by simp
qed

lemma resume_after_flags_append:
  assumes "''--model'' \<notin> set rest" and "''--cd'' \<notin> set rest"
  shows "resume_after_flags tok v (pre @ tok # v # rest)"
proof (induction pre rule: induct_list012)
  case 1
  show ?case using assms by simp
next
  case (2 x)
  show ?case using assms by simp
next
  case (3 x y zs)
  then show ?case by simp
qed

lemma buildArgs_shape:
  "buildArgs this prompt options =
     ([''exec'', ''--json'']
        @ (if skip_of this options then [''--dangerously-bypass-approvals-and-sandbox'']
           else [''--full-auto''])
        @ [''--skip-git-repo-check'']
        @ (if truthy (model this) then [''--model'', str_of (model this)] else [])
        @ (if truthy (workdir this) then [''--cd'', str_of (workdir this)] else []))
     @ (if truthy (session_of options) then [''resume'', str_of (session_of options)] else [])
     @ [if systemPrompt this \<noteq> []
        then ''<system-context>'' @ [CHR 0x0A] @ systemPrompt this @ [CHR 0x0A]
             @ ''</system-context>'' @ [CHR 0x0A, CHR 0x0A] @ prompt
        else prompt]"
  by (simp add: buildArgs_def Let_def)

lemma ClaudeCode_args_shape:
  "ClaudeCode_args format this prompt options =
     ([''-p'', ''--output-format''] @ format
        @ (if skip_of this options then [''--dangerously-skip-permissions''] else []))
     @ (if truthy (session_of options) then [''--resume'', str_of (session_of options)] else [])
     @ (if truthy (model this) then [''--model'', str_of (model this)] else [])
     @ [''--append-system-prompt'', systemPrompt this, prompt]"
  by (simp add: ClaudeCode_args_def Let_def)

text \<open>
  C4. For a Codex runner built by the constructor and a request whose \<open>skipPermissions\<close> is
  false, the argv starts with \<open>exec\<close>, \<open>--json\<close>, \<open>--full-auto\<close>, \<open>--skip-git-repo-check\<close>,
  in this order, and its last element is the prompt behind the system prompt (which is never
  empty) wrapped in \<open><system-context>\<close> tags.
\<close>

theorem codex_argv_full_auto:
  assumes "RunOptions.skipPermissions opts = Some False"
  shows "take 4 (buildArgs (new_PromptRunner m t w sp file) prompt (Some opts))
           = [''exec'', ''--json'', ''--full-auto'', ''--skip-git-repo-check'']
       \<and> last (buildArgs (new_PromptRunner m t w sp file) prompt (Some opts))
           = ''<system-context>'' @ [CHR 0x0A] @ buildSystemPrompt file @ [CHR 0x0A]
             @ ''</system-context>'' @ [CHR 0x0A, CHR 0x0A] @ prompt
       \<and> buildSystemPrompt file \<noteq> []"
proof -
  have skip: "\<not> skip_of (new_PromptRunner m t w sp file) (Some opts)"
    using assms by (simp add: skip_of_def)
  show ?thesis
    using skip buildSystemPrompt_nonempty [of "file"]
    by (simp add: buildArgs_shape systemPrompt_new)
qed

theorem codex_argv_full_auto_witness:
  "take 4 (buildArgs default_runner ''hi'' (Some no_skip_options))
     = [''exec'', ''--json'', ''--full-auto'', ''--skip-git-repo-check'']
   \<and> last (buildArgs default_runner ''hi'' (Some no_skip_options))
     = ''<system-context>'' @ [CHR 0x0A] @ buildSystemPrompt None @ [CHR 0x0A]
       @ ''</system-context>'' @ [CHR 0x0A, CHR 0x0A] @ ''hi''"
  using codex_argv_full_auto [of no_skip_options None None None None None "''hi''"]
  by (simp add: no_skip_options_def default_runner_def)

text \<open>
  C8, as the code has it. For a request that carries a non-empty session id: the Codex argv
  holds \<open>resume\<close> with the id right after it, and no \<open>--model\<close> or \<open>--cd\<close> follows the
  pair; the Claude Code argv (of \<open>run\<close> and of \<open>runStream\<close>) holds \<open>--resume\<close> with the id
  right after it, and when a model is set, \<open>--model\<close> and its value come right after the
  pair, not before it.
\<close>

theorem resume_position:
  assumes "session_of options = Some sid" and "sid \<noteq> []"
  shows "resume_after_flags ''resume'' sid (buildArgs (new_PromptRunner m t w sp file) prompt options)
       \<and> adjacent_in ''--resume'' sid (ClaudeCode_args format this prompt options)
       \<and> (truthy (model this) \<longrightarrow>
            sublist [''--resume'', sid, ''--model'', str_of (model this)]
              (ClaudeCode_args format this prompt options))"
proof -
  let ?r = "new_PromptRunner m t w sp file"
  have ne: "systemPrompt ?r \<noteq> []"
    by (simp add: systemPrompt_new buildSystemPrompt_nonempty)
  have s: "truthy (session_of options)" "str_of (session_of options) = sid"
    using assms by simp_all
  let ?pre = "[''exec'', ''--json'']
        @ (if skip_of ?r options then [''--dangerously-bypass-approvals-and-sandbox'']
           else [''--full-auto''])
        @ [''--skip-git-repo-check'']
        @ (if truthy (model ?r) then [''--model'', str_of (model ?r)] else [])
        @ (if truthy (workdir ?r) then [''--cd'', str_of (workdir ?r)] else [])"
  let ?full = "''<system-context>'' @ [CHR 0x0A] @ systemPrompt ?r @ [CHR 0x0A]
                 @ ''</system-context>'' @ [CHR 0x0A, CHR 0x0A] @ prompt"
  have eq: "buildArgs ?r prompt options = ?pre @ ''resume'' # sid # [?full]"
    unfolding buildArgs_shape using s ne by simp
  have codex: "resume_after_flags ''resume'' sid (buildArgs ?r prompt options)"
    unfolding eq by (rule resume_after_flags_append) simp_all
  let ?cpre = "[''-p'', ''--output-format''] @ format
        @ (if skip_of this options then [''--dangerously-skip-permissions''] else [])"
  let ?crest = "(if truthy (model this) then [''--model'', str_of (model this)] else [])
     @ [''--append-system-prompt'', systemPrompt this, prompt]"
  have ceq: "ClaudeCode_args format this prompt options = ?cpre @ ''--resume'' # sid # ?crest"
    unfolding ClaudeCode_args_shape using s by simp
  have claude: "adjacent_in ''--resume'' sid (ClaudeCode_args format this prompt options)"
    unfolding ceq by (rule adjacent_in_append)
  have order: "truthy (model this) \<longrightarrow>
            sublist [''--resume'', sid, ''--model'', str_of (model this)]
              (ClaudeCode_args format this prompt options)"
  proof
    assume m: "truthy (model this)"
    have "ClaudeCode_args format this prompt options =
            ?cpre @ [''--resume'', sid, ''--model'', str_of (model this)]
            @ [''--append-system-prompt'', systemPrompt this, prompt]"
      unfolding ClaudeCode_args_shape using s m by simp
    then show "sublist [''--resume'', sid, ''--model'', str_of (model this)]
              (ClaudeCode_args format this prompt options)"
      by (simp only: sublist_appendI)
  qed
  from codex claude order show ?thesis by blast
qed

theorem resume_position_witness:
  "resume_after_flags ''resume'' ''sess-456''
     (buildArgs (new_PromptRunner (Some ''o3'') None (Some ''/tmp/test'') None None) ''hi''
        (Some resume_options))
   \<and> adjacent_in ''--resume'' ''sess-456''
     (ClaudeCode_run_args (new_PromptRunner (Some ''opus'') None None None None) ''hi''
        (Some resume_options))
   \<and> sublist [''--resume'', ''sess-456'', ''--model'', ''opus'']
     (ClaudeCode_run_args (new_PromptRunner (Some ''opus'') None None None None) ''hi''
        (Some resume_options))"
  using resume_position [of "Some resume_options" "''sess-456''" "Some ''o3''" None
      "Some ''/tmp/test''" None None "''hi''" "[''json'']"
      "new_PromptRunner (Some ''opus'') None None None None"]
  by (simp add: session_of_def resume_options_def ClaudeCode_run_args_def new_PromptRunner_def)

text \<open>
  C8 as stated fails on the Claude Code runner: with a model set, \<open>--model\<close> comes after
  \<open>--resume\<close> and the session id.
\<close>

theorem resume_before_model_counterexample:
  "ClaudeCode_run_args (new_PromptRunner (Some ''opus'') None None None None) ''hi''
     (Some resume_options)
     = [''-p'', ''--output-format'', ''json'', ''--resume'', ''sess-456'', ''--model'', ''opus'',
        ''--append-system-prompt'', buildSystemPrompt None, ''hi'']
   \<and> \<not> resume_after_flags ''--resume'' ''sess-456''
        (ClaudeCode_run_args (new_PromptRunner (Some ''opus'') None None None None) ''hi''
           (Some resume_options))"
  by (simp add: ClaudeCode_run_args_def ClaudeCode_args_def new_PromptRunner_def skip_of_def
        session_of_def resume_options_def Let_def)

section \<open>Streaming: callbacks, the terminal result event, the flush\<close>

lemma trim_Nil: "trim [] = []"
  by (simp add: trim_def)

text \<open>U+3000 in front and U+FEFF behind are stripped; a lone lead byte is not white space.\<close>

lemma trim_beyond_ascii:
  "trim ([CHR 0xE3, CHR 0x80, CHR 0x80] @ '' ok'' @ [CHR 0x0A, CHR 0xEF, CHR 0xBB, CHR 0xBF]) = ''ok''"
  "trim [CHR 0xE3, CHR 0x81, CHR 0x82] = [CHR 0xE3, CHR 0x81, CHR 0x82]"
  by (simp_all add: trim_def is_space1_def is_space2_def is_space3_def)

lemma trimStart_keep: "s \<noteq> [] \<Longrightarrow> hd s \<notin> set space_leads \<Longrightarrow> trimStart s = s"
  by (cases s rule: trimStart.cases)
     (auto simp: space_leads_def is_space1_def is_space2_def is_space3_def)

lemma trimEnd_rev_keep: "s \<noteq> [] \<Longrightarrow> hd s \<notin> set space_tails \<Longrightarrow> trimEnd_rev s = s"
  by (cases s rule: trimEnd_rev.cases)
     (auto simp: space_tails_def is_space1_def is_space2_def is_space3_def)

lemma trimEnd_rev_nonempty:
  "s \<noteq> [] \<Longrightarrow> last s \<notin> set space_leads \<Longrightarrow> trimEnd_rev s \<noteq> []"
  by (induction s rule: trimEnd_rev.induct)
     (auto simp: space_leads_def is_space1_def is_space2_def is_space3_def split: if_splits)

lemma trim_nonblank:
  assumes "s \<noteq> []" and "hd s \<notin> set space_leads"
  shows "trim s \<noteq> []"
proof -
  have "trimStart s = s"
    using assms by (rule trimStart_keep)
  moreover have "trimEnd_rev (rev s) \<noteq> []"
    using assms by (intro trimEnd_rev_nonempty) (simp_all add: last_rev)
  ultimately show ?thesis
    by (simp add: trim_def)
qed

lemma trim_keep:
  assumes "s \<noteq> []" and "hd s \<notin> set space_leads" and "last s \<notin> set space_tails"
  shows "trim s = s"
proof -
  have "trimStart s = s"
    using assms by (simp add: trimStart_keep)
  moreover have "trimEnd_rev (rev s) = rev s"
    using assms by (intro trimEnd_rev_keep) (simp_all add: hd_rev)
  ultimately show ?thesis
    by (simp add: trim_def)
qed

lemma split_newline_no_nl: "CHR 0x0A \<notin> set s \<Longrightarrow> split_newline s = [s]"
  by (induction s) auto

lemma split_newline_line: "CHR 0x0A \<notin> set s \<Longrightarrow> split_newline (s @ [CHR 0x0A]) = [s, []]"
  by (induction s) auto

lemma claude_error_line_facts:
  "CHR 0x0A \<notin> set claude_error_line" "trim claude_error_line \<noteq> []"
  by (simp_all add: claude_error_line_def trim_nonblank space_leads_def)

lemma claude_ok_line_facts:
  "CHR 0x0A \<notin> set claude_ok_line" "trim claude_ok_line \<noteq> []"
  by (simp_all add: claude_ok_line_def trim_nonblank space_leads_def)

lemma claude_text_line_facts:
  "CHR 0x0A \<notin> set claude_text_line" "trim claude_text_line \<noteq> []"
  by (simp_all add: claude_text_line_def trim_nonblank space_leads_def)

lemma claude_parse_error_line: "claude_parse claude_error_line = Some claude_error_json"
  by (simp add: claude_parse_def parse_table_def)

lemma claude_parse_ok_line: "claude_parse claude_ok_line = Some claude_ok_json"
  by (simp add: claude_parse_def parse_table_def claude_ok_line_def claude_error_line_def)

lemma claude_parse_text_line: "claude_parse claude_text_line = Some claude_text_json"
  by (simp add: claude_parse_def parse_table_def claude_ok_line_def claude_error_line_def
        claude_text_line_def)

text \<open>
  C3 fails on the code. After the timer has fired, the \<open>close\<close> event of the killed process
  (exit code null) calls \<open>onError\<close> a second time, in the Codex and in the Claude Code
  executor. After a streamed \<open>result\<close> object with \<open>is_error\<close> has called \<open>onError\<close> and
  rejected the promise, the exit with code 0 calls \<open>onComplete\<close> as well.
\<close>

theorem stream_callbacks_fire_twice:
  "calls (Codex_executeStream parse this [TimeoutFired, Close None])
     = [OnError (Error (''Codex CLI timed out after '' @ show_nat (timeoutMs this) @ ''ms'')),
        OnError (Error ''Codex CLI exited with code null'')]
   \<and> calls (ClaudeCode_executeStream merge parse' this [TimeoutFired, Close None])
     = [OnError (Error (''Claude Code CLI timed out after '' @ show_nat (timeoutMs this) @ ''ms'')),
        OnError (Error ''Claude Code CLI exited with code null'')]
   \<and> calls (ClaudeCode_executeStream merge claude_parse this
              [StdoutData (Buffer (claude_error_line @ [CHR 0x0A])), Close (Some 0)])
     = [OnError (Error ''boom''),
        OnComplete \<lparr>RunResult.result = [], RunResult.sessionId = ''s1''\<rparr>]
   \<and> outcome (ClaudeCode_executeStream merge claude_parse this
              [StdoutData (Buffer (claude_error_line @ [CHR 0x0A])), Close (Some 0)])
     = Some (Inl (Error ''boom''))"
proof -
  have a: "calls (Codex_executeStream parse this [TimeoutFired, Close None])
     = [OnError (Error (''Codex CLI timed out after '' @ show_nat (timeoutMs this) @ ''ms'')),
        OnError (Error ''Codex CLI exited with code null'')]"
    by (simp add: Codex_executeStream_def Codex_stream_step_def new_Streaming_def settle_def
          fire_def Codex_stream_flush_def trim_Nil Let_def)
  have b: "calls (ClaudeCode_executeStream merge parse' this [TimeoutFired, Close None])
     = [OnError (Error (''Claude Code CLI timed out after '' @ show_nat (timeoutMs this) @ ''ms'')),
        OnError (Error ''Claude Code CLI exited with code null'')]"
    by (simp add: ClaudeCode_executeStream_def ClaudeCode_stream_step_def new_Streaming_def
          settle_def fire_def ClaudeCode_stream_flush_def trim_Nil Let_def)
  have c: "calls (ClaudeCode_executeStream merge claude_parse this
              [StdoutData (Buffer (claude_error_line @ [CHR 0x0A])), Close (Some 0)])
     = [OnError (Error ''boom''),
        OnComplete \<lparr>RunResult.result = [], RunResult.sessionId = ''s1''\<rparr>]"
    by (simp add: ClaudeCode_executeStream_def ClaudeCode_stream_step_def new_Streaming_def
          settle_def fire_def ClaudeCode_stream_flush_def ClaudeCode_stream_data_def
          split_newline_line claude_error_line_facts claude_parse_error_line
          claude_error_json_def trim_Nil Let_def)
  have d: "outcome (ClaudeCode_executeStream merge claude_parse this
              [StdoutData (Buffer (claude_error_line @ [CHR 0x0A])), Close (Some 0)])
     = Some (Inl (Error ''boom''))"
    by (simp add: ClaudeCode_executeStream_def ClaudeCode_stream_step_def new_Streaming_def
          settle_def fire_def ClaudeCode_stream_flush_def ClaudeCode_stream_data_def
          split_newline_line claude_error_line_facts claude_parse_error_line
          claude_error_json_def trim_Nil Let_def)
  from a b c d show ?thesis by blast
qed

text \<open>
  C10. When the \<open>result\<close> object with \<open>is_error\<close> is the whole of stdout and comes without
  a line feed, it stays in the buffer until \<open>close\<close>; the flush reads its session id and
  result text and never looks at \<open>is_error\<close>. With exit code 0 the run resolves, and
  \<open>onComplete\<close> is the only callback: the text is the result text merged into the empty
  accumulated text (the empty text when the result text is empty).
\<close>

theorem flush_ignores_is_error:
  assumes "parse frag = Some json"
    and "ClaudeJson.type json = Some ''result''"
    and "is_error json"
    and "trim frag \<noteq> []"
    and "CHR 0x0A \<notin> set frag"
  shows "outcome (ClaudeCode_executeStream merge parse this [StdoutData (Buffer frag), Close (Some 0)])
           = Some (Inr \<lparr>RunResult.result =
                           (if ClaudeJson.result json \<noteq> [] then merge [] (ClaudeJson.result json) else []),
                         RunResult.sessionId = ClaudeJson.session_id json\<rparr>)
       \<and> calls (ClaudeCode_executeStream merge parse this [StdoutData (Buffer frag), Close (Some 0)])
           = [OnComplete \<lparr>RunResult.result =
                            (if ClaudeJson.result json \<noteq> [] then merge [] (ClaudeJson.result json) else []),
                          RunResult.sessionId = ClaudeJson.session_id json\<rparr>]"
  using assms
  by (simp add: ClaudeCode_executeStream_def ClaudeCode_stream_step_def new_Streaming_def
        settle_def fire_def ClaudeCode_stream_flush_def ClaudeCode_stream_data_def
        split_newline_no_nl trim_Nil Let_def)

theorem flush_ignores_is_error_witness:
  "outcome (ClaudeCode_executeStream (mergeTexts (\<lambda>t r. r)) claude_parse default_runner
              [StdoutData (Buffer claude_error_line), Close (Some 0)])
     = Some (Inr \<lparr>RunResult.result = ''boom'', RunResult.sessionId = ''s1''\<rparr>)
   \<and> calls (ClaudeCode_executeStream (mergeTexts (\<lambda>t r. r)) claude_parse default_runner
              [StdoutData (Buffer claude_error_line), Close (Some 0)])
     = [OnComplete \<lparr>RunResult.result = ''boom'', RunResult.sessionId = ''s1''\<rparr>]"
  using flush_ignores_is_error [of claude_parse claude_error_line claude_error_json
      "mergeTexts (\<lambda>t r. r)" default_runner]
  by (simp add: claude_parse_error_line claude_error_line_facts)
     (simp add: claude_error_json_def mergeTexts_def)

text \<open>
  C6, with \<open>mergeTexts\<close> as the spec words it. Let a streaming run have accumulated the text
  \<open>fullText s\<close>, with an empty buffer and its promise pending, and let a \<open>result\<close> object
  without \<open>is_error\<close> arrive, as a full line or as the last fragment without a line feed,
  and the process exit with code 0. When the accumulated text is empty, the run resolves with
  the result text. When it is not empty and is not a prefix of the result text, the run
  resolves with the accumulated text followed by the result text.
\<close>

theorem result_merge:
  assumes "parse line = Some json"
    and "ClaudeJson.type json = Some ''result''"
    and "\<not> is_error json"
    and "trim line \<noteq> []"
    and "CHR 0x0A \<notin> set line"
    and "buffer s = []"
    and "outcome s = None"
  shows "(fullText s = [] \<longrightarrow>
            outcome (foldl (ClaudeCode_stream_step (mergeTexts otherwise) parse this) s
                       [StdoutData (Buffer (line @ [CHR 0x0A])), Close (Some 0)])
              = Some (Inr \<lparr>RunResult.result = ClaudeJson.result json,
                            RunResult.sessionId = ClaudeJson.session_id json\<rparr>)
          \<and> outcome (foldl (ClaudeCode_stream_step (mergeTexts otherwise) parse this) s
                       [StdoutData (Buffer line), Close (Some 0)])
              = Some (Inr \<lparr>RunResult.result = ClaudeJson.result json,
                            RunResult.sessionId = ClaudeJson.session_id json\<rparr>))
       \<and> (fullText s \<noteq> [] \<and> \<not> prefix (fullText s) (ClaudeJson.result json) \<longrightarrow>
            outcome (foldl (ClaudeCode_stream_step (mergeTexts otherwise) parse this) s
                       [StdoutData (Buffer (line @ [CHR 0x0A])), Close (Some 0)])
              = Some (Inr \<lparr>RunResult.result = fullText s @ ClaudeJson.result json,
                            RunResult.sessionId = ClaudeJson.session_id json\<rparr>)
          \<and> outcome (foldl (ClaudeCode_stream_step (mergeTexts otherwise) parse this) s
                       [StdoutData (Buffer line), Close (Some 0)])
              = Some (Inr \<lparr>RunResult.result = fullText s @ ClaudeJson.result json,
                            RunResult.sessionId = ClaudeJson.session_id json\<rparr>))"
  using assms
  by (simp add: ClaudeCode_stream_step_def settle_def fire_def ClaudeCode_stream_flush_def
        ClaudeCode_stream_data_def split_newline_no_nl split_newline_line mergeTexts_def
        trim_Nil Let_def)

lemma after_text_line:
  "fullText (ClaudeCode_executeStream merge claude_parse this [StdoutData (Buffer (claude_text_line @ [CHR 0x0A]))])
     = ''Checking. ''"
  "buffer (ClaudeCode_executeStream merge claude_parse this [StdoutData (Buffer (claude_text_line @ [CHR 0x0A]))]) = []"
  "outcome (ClaudeCode_executeStream merge claude_parse this [StdoutData (Buffer (claude_text_line @ [CHR 0x0A]))])
     = None"
  by (simp_all add: ClaudeCode_executeStream_def ClaudeCode_stream_step_def new_Streaming_def
        fire_def ClaudeCode_stream_data_def split_newline_line claude_text_line_facts
        claude_parse_text_line claude_text_json_def Let_def)

theorem result_merge_witness:
  "outcome (ClaudeCode_executeStream (mergeTexts (\<lambda>t r. r)) claude_parse default_runner
              [StdoutData (Buffer (claude_ok_line @ [CHR 0x0A])), Close (Some 0)])
     = Some (Inr \<lparr>RunResult.result = ''ok'', RunResult.sessionId = ''s2''\<rparr>)
   \<and> outcome (ClaudeCode_executeStream (mergeTexts (\<lambda>t r. r)) claude_parse default_runner
              [StdoutData (Buffer (claude_text_line @ [CHR 0x0A])), StdoutData (Buffer claude_ok_line), Close (Some 0)])
     = Some (Inr \<lparr>RunResult.result = ''Checking. ok'', RunResult.sessionId = ''s2''\<rparr>)"
proof -
  let ?m = "mergeTexts (\<lambda>t r. r)"
  let ?s = "ClaudeCode_executeStream ?m claude_parse default_runner
              [StdoutData (Buffer (claude_text_line @ [CHR 0x0A]))]"
  have fresh: "fullText new_Streaming = []" "buffer new_Streaming = []" "outcome new_Streaming = None"
    by (simp_all add: new_Streaming_def)
  have json: "ClaudeJson.type claude_ok_json = Some ''result''" "\<not> is_error claude_ok_json"
    "ClaudeJson.result claude_ok_json = ''ok''" "ClaudeJson.session_id claude_ok_json = ''s2''"
    by (simp_all add: claude_ok_json_def)
  have 1: "outcome (foldl (ClaudeCode_stream_step ?m claude_parse default_runner) new_Streaming
                      [StdoutData (Buffer (claude_ok_line @ [CHR 0x0A])), Close (Some 0)])
             = Some (Inr \<lparr>RunResult.result = ''ok'', RunResult.sessionId = ''s2''\<rparr>)"
    using result_merge [of claude_parse claude_ok_line claude_ok_json new_Streaming
        "\<lambda>t r. r" default_runner]
      claude_parse_ok_line claude_ok_line_facts fresh json
    by simp
  have 2: "outcome (foldl (ClaudeCode_stream_step ?m claude_parse default_runner) ?s
                      [StdoutData (Buffer claude_ok_line), Close (Some 0)])
             = Some (Inr \<lparr>RunResult.result = ''Checking. ok'', RunResult.sessionId = ''s2''\<rparr>)"
    using result_merge [of claude_parse claude_ok_line claude_ok_json ?s
        "\<lambda>t r. r" default_runner]
      claude_parse_ok_line claude_ok_line_facts after_text_line [of ?m default_runner] json
    by simp
  from 1 2 show ?thesis
    by (simp add: ClaudeCode_executeStream_def)
qed

section \<open>Non-streaming runs\<close>

lemma extractText_complete: "extractText json = Some (t, c) \<Longrightarrow> c"
  by (auto simp: extractText_def split: if_splits)

lemma messageParts_fold:
  "foldl (\<lambda>parts line.
            if trim line = [] then parts
            else case parse line of
                   None \<Rightarrow> parts
                 | Some json \<Rightarrow> (case extractText json of
                                   None \<Rightarrow> parts
                                 | Some (text, isComplete) \<Rightarrow>
                                     if isComplete then parts @ [text] else parts))
         acc lines
   = acc @ List.map_filter (line_text parse) lines"
proof (induction lines arbitrary: acc)
  case Nil
  show ?case by (simp add: List.map_filter_simps)
next
  case (Cons l ls)
  show ?case
    by (auto simp: Cons.IH List.map_filter_simps line_text_def split: option.splits
          dest: extractText_complete)
qed

lemma extractResult_texts:
  "extractResult parse output =
     (let texts = List.map_filter (line_text parse) (split_newline (trim output))
      in if texts = [] then output else last texts)"
  by (simp add: extractResult_def messageParts_fold Let_def)

lemma map_filter_all_None: "\<forall>x \<in> set xs. f x = None \<Longrightarrow> List.map_filter f xs = []"
  by (induction xs) (auto simp: List.map_filter_simps)

lemma map_filter_append: "List.map_filter f (xs @ ys) = List.map_filter f xs @ List.map_filter f ys"
  by (simp add: List.map_filter_def)

lemma show_int_1: "show_int 1 = ''1''"
  by code_simp

lemma includes_exit: "includes_str (a @ '' exited with code '' @ b) ''exited with code''"
proof -
  have "a @ '' exited with code '' @ b = (a @ '' '') @ ''exited with code'' @ ('' '' @ b)"
    by simp
  then show ?thesis
    unfolding includes_str_def by (simp only: sublist_appendI)
qed

text \<open>
  C9, as the code has it. A Codex run whose process exits with code 0 and whose output has no
  line that yields a text returns the raw output, untrimmed, as its result. A Claude Code run
  whose process exits with code 0 and whose trimmed output \<open>JSON.parse\<close> rejects fails, with
  the error \<open>Failed to parse Claude Code CLI response\<close> followed by the output.
\<close>

theorem unparsable_output:
  "(outcome (Codex_execute parse this (env (buildArgs this prompt options))) = Some (Inr (output, sid))
      \<and> (\<forall>line \<in> set (split_newline (trim output)). line_text parse line = None)
    \<longrightarrow> snd (Codex_run parse env this prompt options)
          = Some (Inr \<lparr>RunResult.result = output, RunResult.sessionId = sid\<rparr>))
   \<and> (outcome (ClaudeCode_execute this' (env' (ClaudeCode_run_args this' prompt' options')))
        = Some (Inr output')
      \<and> parse' (trim output') = None
    \<longrightarrow> snd (ClaudeCode_run parse' env' this' prompt' options')
          = Some (Inl (Error (''Failed to parse Claude Code CLI response: '' @ output'))))"
  by (auto simp: Codex_run_def ClaudeCode_run_def extractResult_texts map_filter_all_None
        parseResponse_def Let_def)

theorem unparsable_output_witness:
  "snd (Codex_run (parse_table []) (\<lambda>args. [StdoutData (Buffer ''Not logged in''), Close (Some 0)])
          default_runner ''hi'' None)
     = Some (Inr \<lparr>RunResult.result = ''Not logged in'', RunResult.sessionId = []\<rparr>)
   \<and> snd (ClaudeCode_run (parse_table []) (\<lambda>args. [StdoutData (Buffer ''Not logged in''), Close (Some 0)])
          default_runner ''hi'' None)
     = Some (Inl (Error ''Failed to parse Claude Code CLI response: Not logged in''))"
proof -
  let ?env = "\<lambda>args :: string list. [StdoutData (Buffer ''Not logged in''), Close (Some 0)]"
  have 1: "outcome (Codex_execute (parse_table []) default_runner
                      (?env (buildArgs default_runner ''hi'' None)))
             = Some (Inr (''Not logged in'', []))"
    by (simp add: Codex_execute_def Codex_execute_data_def Codex_execute_line_def
          new_Execution_def settle_def parse_table_def split_newline_no_nl Let_def)
  have 2: "\<forall>line \<in> set (split_newline (trim ''Not logged in'')).
             line_text (parse_table []) line = None"
    by (simp add: line_text_def parse_table_def)
  have 3: "outcome (ClaudeCode_execute default_runner
                      (?env (ClaudeCode_run_args default_runner ''hi'' None)))
             = Some (Inr ''Not logged in'')"
    by (simp add: ClaudeCode_execute_def new_Execution_def settle_def)
  have 4: "parse_table [] (trim ''Not logged in'') = (None :: ClaudeJson option)"
    by (simp add: parse_table_def)
  from unparsable_output [of "parse_table []" default_runner ?env "''hi''" None
      "''Not logged in''" "[]" default_runner ?env "''hi''" None "''Not logged in''"
      "parse_table []"] 1 2 3 4
  show ?thesis by simp
qed

text \<open>
  C9 as stated fails on the Claude Code runner: the CLI prints a plain message and exits with
  code 0, and the run fails instead of returning the message.
\<close>

theorem unparsable_output_counterexample:
  "snd (ClaudeCode_run (parse_table []) (\<lambda>args. [StdoutData (Buffer ''Not logged in''), Close (Some 0)])
          default_runner ''hi'' None)
     = Some (Inl (Error ''Failed to parse Claude Code CLI response: Not logged in''))"
  by (simp add: ClaudeCode_run_def ClaudeCode_execute_def new_Execution_def settle_def
        parseResponse_def parse_table_def Let_def)

text \<open>
  C2, as the code has it. \<open>GeminiRunner.run\<close>: when the request carries a non-empty session
  id and the first process exits with a non-zero code, the run spawns exactly one more
  process, with the argv of the first less the \<open>--resume\<close> pair, and the run is whatever that
  second attempt gives. \<open>ClaudeCodeRunner.run\<close>: an error of the only process it spawns is the
  error of the run; nothing is retried.
\<close>

theorem resume_retry:
  "(truthy (session_of options)
      \<and> outcome (Gemini_execute parse this (env (Gemini_run_args this prompt options)))
          = Some (Inl (Error (''Gemini CLI exited with code '' @ show_code code @ '': '' @ err)))
    \<longrightarrow> Gemini_run parse env this prompt options
          = ([Gemini_run_args this prompt options,
              Gemini_run_args this prompt
                (map_option (\<lambda>opts. opts\<lparr>RunOptions.sessionId := None\<rparr>) options)],
             Gemini_attempt parse env this
               (Gemini_run_args this prompt
                  (map_option (\<lambda>opts. opts\<lparr>RunOptions.sessionId := None\<rparr>) options)))
        \<and> Gemini_run_args this prompt options
          = buildBaseArgs this (map_option (\<lambda>opts. opts\<lparr>RunOptions.sessionId := None\<rparr>) options)
            @ [''--resume'', str_of (session_of options)]
            @ [''--prompt'', prompt, ''--output-format'', ''json'']
        \<and> Gemini_run_args this prompt
            (map_option (\<lambda>opts. opts\<lparr>RunOptions.sessionId := None\<rparr>) options)
          = buildBaseArgs this (map_option (\<lambda>opts. opts\<lparr>RunOptions.sessionId := None\<rparr>) options)
            @ [''--prompt'', prompt, ''--output-format'', ''json''])
   \<and> (outcome (ClaudeCode_execute this' (env' (ClaudeCode_run_args this' prompt options)))
        = Some (Inl e)
    \<longrightarrow> ClaudeCode_run parse' env' this' prompt options
          = ([ClaudeCode_run_args this' prompt options], Some (Inl e)))"
proof -
  let ?cleared = "map_option (\<lambda>opts. opts\<lparr>RunOptions.sessionId := None\<rparr>) options"
  have inc: "includes_str (''Gemini CLI exited with code '' @ show_code code @ '': '' @ err)
               ''exited with code''"
    using includes_exit [of "''Gemini CLI''" "show_code code @ '': '' @ err"] by simp
  have cleared: "session_of ?cleared = None" "skip_of this ?cleared = skip_of this options"
    by (cases options; simp add: session_of_def skip_of_def)+
  have args: "truthy (session_of options) \<Longrightarrow>
      Gemini_run_args this prompt options
        = buildBaseArgs this ?cleared @ [''--resume'', str_of (session_of options)]
          @ [''--prompt'', prompt, ''--output-format'', ''json'']"
    by (simp add: Gemini_run_args_def buildBaseArgs_def cleared Let_def)
  have gem: "truthy (session_of options)
          \<and> outcome (Gemini_execute parse this (env (Gemini_run_args this prompt options)))
              = Some (Inl (Error (''Gemini CLI exited with code '' @ show_code code @ '': '' @ err)))
          \<longrightarrow> Gemini_run parse env this prompt options
                = ([Gemini_run_args this prompt options, Gemini_run_args this prompt ?cleared],
                   Gemini_attempt parse env this (Gemini_run_args this prompt ?cleared))"
    using inc by (simp add: Gemini_run_def Gemini_attempt_def Let_def del: truthy.simps)
  have cl: "outcome (ClaudeCode_execute this' (env' (ClaudeCode_run_args this' prompt options)))
              = Some (Inl e)
          \<longrightarrow> ClaudeCode_run parse' env' this' prompt options
                = ([ClaudeCode_run_args this' prompt options], Some (Inl e))"
    by (simp add: ClaudeCode_run_def Let_def)
  have retry: "Gemini_run_args this prompt ?cleared
                = buildBaseArgs this ?cleared @ [''--prompt'', prompt, ''--output-format'', ''json'']"
    by (simp add: Gemini_run_args_def)
  from gem cl args retry show ?thesis by blast
qed

lemma trim_sample_lines:
  "trim gemini_ok_line = gemini_ok_line" "trim claude_ok_line = claude_ok_line"
  by (simp_all add: trim_keep gemini_ok_line_def claude_ok_line_def space_leads_def space_tails_def)

lemma gemini_parse_ok_line:
  "gemini_parse gemini_ok_line = Some \<lparr>GeminiJsonResponse.session_id = ''g2'', response = ''hello''\<rparr>"
  by (simp add: gemini_parse_def parse_table_def)

lemma stale_session_runs:
  "Gemini_run_args (new_GeminiRunner None None None None) ''hi'' (Some resume_options)
     = [''--resume'', ''sess-456'', ''--prompt'', ''hi'', ''--output-format'', ''json'']"
  "Gemini_run_args (new_GeminiRunner None None None None) ''hi''
     (map_option (\<lambda>opts. opts\<lparr>RunOptions.sessionId := None\<rparr>) (Some resume_options))
     = [''--prompt'', ''hi'', ''--output-format'', ''json'']"
  "ClaudeCode_run_args default_runner ''hi'' (Some resume_options)
     = [''-p'', ''--output-format'', ''json'', ''--resume'', ''sess-456'',
        ''--append-system-prompt'', buildSystemPrompt None, ''hi'']"
  "ClaudeCode_run_args default_runner ''hi'' (Some no_skip_options)
     = [''-p'', ''--output-format'', ''json'', ''--append-system-prompt'', buildSystemPrompt None, ''hi'']"
  by (simp_all add: Gemini_run_args_def buildBaseArgs_def new_GeminiRunner_def resume_options_def
        no_skip_options_def skip_of_def session_of_def ClaudeCode_run_args_def ClaudeCode_args_def
        default_runner_def new_PromptRunner_def Let_def)

theorem resume_retry_witness:
  "Gemini_run gemini_parse (stale_session_cli gemini_ok_line) (new_GeminiRunner None None None None)
     ''hi'' (Some resume_options)
     = ([[''--resume'', ''sess-456'', ''--prompt'', ''hi'', ''--output-format'', ''json''],
         [''--prompt'', ''hi'', ''--output-format'', ''json'']],
        Some (Inr \<lparr>RunResult.result = ''hello'', RunResult.sessionId = ''g2''\<rparr>))
   \<and> ClaudeCode_run claude_parse (stale_session_cli claude_ok_line) default_runner ''hi''
       (Some resume_options)
     = ([[''-p'', ''--output-format'', ''json'', ''--resume'', ''sess-456'',
          ''--append-system-prompt'', buildSystemPrompt None, ''hi'']],
        Some (Inl (Error ''Claude Code CLI exited with code 1: No conversation found'')))"
proof -
  let ?g = "new_GeminiRunner None None None None"
  have s: "truthy (session_of (Some resume_options))"
    by (simp add: session_of_def resume_options_def)
  have 1: "outcome (Gemini_execute gemini_parse ?g
                      (stale_session_cli gemini_ok_line
                         (Gemini_run_args ?g ''hi'' (Some resume_options))))
             = Some (Inl (Error (''Gemini CLI exited with code '' @ show_code (Some 1) @ '': ''
                                   @ ''No conversation found'')))"
    by (simp add: stale_session_runs stale_session_cli_def Gemini_execute_def new_Execution_def
          settle_def Let_def)
  have 2: "outcome (ClaudeCode_execute default_runner
                      (stale_session_cli claude_ok_line
                         (ClaudeCode_run_args default_runner ''hi'' (Some resume_options))))
             = Some (Inl (Error (''Claude Code CLI exited with code 1: No conversation found'')))"
    by (simp add: stale_session_runs stale_session_cli_def ClaudeCode_execute_def
          new_Execution_def settle_def show_int_1 Let_def)
  have 3: "Gemini_attempt gemini_parse (stale_session_cli gemini_ok_line) ?g
             [''--prompt'', ''hi'', ''--output-format'', ''json'']
             = Some (Inr \<lparr>RunResult.result = ''hello'', RunResult.sessionId = ''g2''\<rparr>)"
    by (simp add: Gemini_attempt_def stale_session_cli_def Gemini_execute_def new_Execution_def
          settle_def trim_sample_lines gemini_parse_ok_line parseJsonResponse_def Let_def)
  from resume_retry [of "Some resume_options" gemini_parse ?g "stale_session_cli gemini_ok_line"
      "''hi''" "Some 1" "''No conversation found''" default_runner
      "stale_session_cli claude_ok_line"
      "Error ''Claude Code CLI exited with code 1: No conversation found''" claude_parse]
    s 1 2 3
  show ?thesis
    by (simp add: stale_session_runs)
qed

text \<open>
  C2 as stated fails on the Claude Code runner. The CLI rejects the stale session id with
  exit code 1; \<open>run\<close> spawns one process only and fails with the exit error, though the same
  request without the session id succeeds.
\<close>

theorem no_retry_counterexample:
  "ClaudeCode_run claude_parse (stale_session_cli claude_ok_line) default_runner ''hi''
     (Some resume_options)
     = ([[''-p'', ''--output-format'', ''json'', ''--resume'', ''sess-456'',
          ''--append-system-prompt'', buildSystemPrompt None, ''hi'']],
        Some (Inl (Error ''Claude Code CLI exited with code 1: No conversation found'')))
   \<and> snd (ClaudeCode_run claude_parse (stale_session_cli claude_ok_line) default_runner ''hi''
            (Some no_skip_options))
     = Some (Inr \<lparr>RunResult.result = ''ok'', RunResult.sessionId = ''s2''\<rparr>)"
  by (simp add: ClaudeCode_run_def stale_session_runs stale_session_cli_def ClaudeCode_execute_def
        new_Execution_def settle_def show_int_1 parseResponse_def trim_sample_lines
        claude_parse_ok_line claude_ok_json_def Let_def)

section \<open>Codex: the last text, the stream decoder\<close>

text \<open>
  C5, as the code has it. The result of a Codex run is the text of the last line of its
  output that yields a text, alone, whatever the earlier lines yielded; in the streaming
  executor a decoded object that yields a text replaces the accumulated text. A completed
  \<open>agent_message\<close> item yields its text when the text is not empty, and so do the legacy
  \<open>message\<close> and \<open>result\<close> objects.
\<close>

theorem last_text_wins:
  "(split_newline (trim output) = pre @ line # post
      \<and> line_text parse line = Some t
      \<and> (\<forall>l \<in> set post. line_text parse l = None)
    \<longrightarrow> extractResult parse output = t)
   \<and> (extractText json = Some (t', c) \<longrightarrow> fullText (Codex_stream_json s json) = t')
   \<and> (CodexEvent.type json' = Some ''item.completed''
        \<and> item json' = Some it \<and> CodexItem.type it = Some ''agent_message''
        \<and> text' it = Some a \<and> a \<noteq> []
      \<longrightarrow> extractText json' = Some (a, True))"
proof -
  have 1: "split_newline (trim output) = pre @ line # post
          \<and> line_text parse line = Some t
          \<and> (\<forall>l \<in> set post. line_text parse l = None)
          \<longrightarrow> extractResult parse output = t"
    by (simp add: extractResult_texts map_filter_append map_filter_all_None
          List.map_filter_simps Let_def)
  have 2: "extractText json = Some (t', c) \<longrightarrow> fullText (Codex_stream_json s json) = t'"
    by (simp add: Codex_stream_json_def fire_def Let_def split: option.splits)
  have 3: "CodexEvent.type json' = Some ''item.completed''
            \<and> item json' = Some it \<and> CodexItem.type it = Some ''agent_message''
            \<and> text' it = Some a \<and> a \<noteq> []
          \<longrightarrow> extractText json' = Some (a, True)"
    by (simp add: extractText_def item_field_def)
  from 1 2 3 show ?thesis by blast
qed

lemma codex_parse_lines:
  \<open>codex_parse ''{"type":"item.completed","item":{"type":"agent_message","text":"A"}}''
     = Some (agent_message ''A'')\<close>
  \<open>codex_parse ''{"type":"item.completed","item":{"type":"agent_message","text":"B"}}''
     = Some (agent_message ''B'')\<close>
  \<open>codex_parse ''{"a":1}'' = Some untyped_event\<close>
  \<open>codex_parse ''{"b":2}'' = Some untyped_event\<close>
  by (simp_all add: codex_parse_def parse_table_def)

lemma agent_message_text: "t \<noteq> [] \<Longrightarrow> extractText (agent_message t) = Some (t, True)"
  by (simp add: extractText_def agent_message_def item_field_def)

lemma two_completions_lines:
  \<open>split_newline (trim (codex_transcript
      [''{"type":"item.completed","item":{"type":"agent_message","text":"A"}}'',
       ''{"type":"item.completed","item":{"type":"agent_message","text":"B"}}'']))
   = [''{"type":"item.completed","item":{"type":"agent_message","text":"A"}}'']
     @ ''{"type":"item.completed","item":{"type":"agent_message","text":"B"}}'' # []\<close>
  by (simp add: codex_transcript_def trim_def is_space1_def is_space2_def is_space3_def)

theorem last_text_wins_witness:
  \<open>extractResult codex_parse (codex_transcript
      [''{"type":"item.completed","item":{"type":"agent_message","text":"A"}}'',
       ''{"type":"item.completed","item":{"type":"agent_message","text":"B"}}'']) = ''B''
   \<and> fullText (Codex_stream_json (new_Streaming\<lparr>fullText := ''A''\<rparr>) (agent_message ''B'')) = ''B''
   \<and> extractText (agent_message ''B'') = Some (''B'', True)\<close>
proof -
  have t: \<open>line_text codex_parse
             ''{"type":"item.completed","item":{"type":"agent_message","text":"B"}}'' = Some ''B''\<close>
    by (simp add: line_text_def codex_parse_lines agent_message_text trim_nonblank space_leads_def)
  have e: "extractText (agent_message ''B'') = Some (''B'', True)"
    by (simp add: agent_message_text)
  have j: "CodexEvent.type (agent_message ''B'') = Some ''item.completed''
           \<and> item (agent_message ''B'') = Some \<lparr>CodexItem.type = Some ''agent_message'', text' = Some ''B''\<rparr>"
    by (simp add: agent_message_def)
  from last_text_wins [of
      \<open>codex_transcript
        [''{"type":"item.completed","item":{"type":"agent_message","text":"A"}}'',
         ''{"type":"item.completed","item":{"type":"agent_message","text":"B"}}'']\<close>
      \<open>[''{"type":"item.completed","item":{"type":"agent_message","text":"A"}}'']\<close>
      \<open>''{"type":"item.completed","item":{"type":"agent_message","text":"B"}}''\<close>
      "[]" codex_parse "''B''" "agent_message ''B''" "''B''" True
      "new_Streaming\<lparr>fullText := ''A''\<rparr>" "agent_message ''B''"
      "\<lparr>CodexItem.type = Some ''agent_message'', text' = Some ''B''\<rparr>" "''B''"]
    two_completions_lines t e j
  show ?thesis by simp
qed

text \<open>
  C5 as stated fails where the last completed \<open>agent_message\<close> is not the last line that
  yields a text: a legacy \<open>message\<close> object after the completions supplies the result, and a
  completion with an empty text is passed over.
\<close>

theorem last_completion_counterexample:
  \<open>extractResult codex_parse (codex_transcript
      [''{"type":"item.completed","item":{"type":"agent_message","text":"A"}}'',
       ''{"type":"item.completed","item":{"type":"agent_message","text":"B"}}'',
       ''{"type":"message","content":"C"}'']) = ''C''
   \<and> extractResult codex_parse (codex_transcript
      [''{"type":"item.completed","item":{"type":"agent_message","text":"A"}}'',
       ''{"type":"item.completed","item":{"type":"agent_message","text":""}}'']) = ''A''\<close>
  by (simp add: extractResult_def codex_transcript_def trim_def is_space1_def is_space2_def is_space3_def codex_parse_def
       parse_table_def extractText_def item_field_def agent_message_def legacy_message_def Let_def)







end
